theory Spec2Isabelle
  imports Complex_Main
begin

section \<open>Python values shared by the modules\<close>

text \<open>
  Wall-clock times and durations are Python floats; they are modelled as \<open>real\<close>
  (rounding is not part of any property stated below).  Exceptions that the
  modelled code can raise are values of \<open>py_error\<close>.
\<close>

datatype py_error = ZeroDivisionError | ValueError | IndexError | KeyError | RuntimeError

section \<open>Batch processing: \<open>core/services/safe_crawler.py\<close>\<close>

subsection \<open>Data\<close>

text \<open>
  \<open>processor_func(url)\<close> either returns a value or raises an \<open>Exception\<close>
  whose \<open>str(e)\<close> is the carried message.  A processor is modelled as a function
  of the URL: the result of one unit does not depend on the other units.
\<close>

datatype 'a outcome = Returns 'a | Raises string

text \<open>The dict \<open>{"status": "error", "message": str(e), "url": url}\<close>.\<close>

record error_record =
  err_status :: string
  err_message :: string
  err_url :: string

text \<open>A slot of the returned list: the processor's own result, or the error dict.\<close>

datatype 'a slot = is_Result: Result 'a | is_Failed: Failed error_record

definition make_error :: "string \<Rightarrow> string \<Rightarrow> 'a slot" where
  "make_error msg u = Failed \<lparr>err_status = ''error'', err_message = msg, err_url = u\<rparr>"

subsection \<open>\<open>batch_process_urls\<close> (lines 441-489)\<close>






subsection \<open>\<open>async_batch_process_urls\<close> (lines 633-701)\<close>

text \<open>
  The progress callback receives a text built from the URL, an index and the total.
  The two texts are kept apart by a tag.  A callback returns normally (\<open>None\<close>) or
  raises an \<open>Exception\<close> with a message.
\<close>

datatype progress = Started string | Finished string

type_synonym progress_callback = "progress \<Rightarrow> nat \<Rightarrow> nat \<Rightarrow> string option"

definition call_progress :: "progress_callback option \<Rightarrow> progress \<Rightarrow> nat \<Rightarrow> nat \<Rightarrow> unit outcome" where
  "call_progress cb p k n =
     (case cb of
        None \<Rightarrow> Returns ()
      | Some c \<Rightarrow> (case c p k n of None \<Rightarrow> Returns () | Some msg \<Rightarrow> Raises msg))"

text \<open>
  What \<open>asyncio.gather(*tasks, return_exceptions=True)\<close> holds for a task: the
  value the task returned, or the exception object it ended with.
\<close>

datatype 'a gathered = Value "'a slot" | ExceptionObject string

text \<open>
  \<open>process_single_url(url, index)\<close>: inside the semaphore, the whole body is in
  \<open>try ... except Exception\<close>, which returns the error dict.
\<close>

definition process_single_url ::
  "progress_callback option \<Rightarrow> (string \<Rightarrow> 'a outcome) \<Rightarrow> nat \<Rightarrow> string \<Rightarrow> nat \<Rightarrow> 'a gathered" where
  "process_single_url cb processor_func n u index =
     (case call_progress cb (Started u) index n of
        Raises msg \<Rightarrow> Value (make_error msg u)
      | Returns _ \<Rightarrow>
          (case processor_func u of
             Raises msg \<Rightarrow> Value (make_error msg u)
           | Returns result \<Rightarrow>
               (case call_progress cb (Finished u) (index + 1) n of
                  Raises msg \<Rightarrow> Value (make_error msg u)
                | Returns _ \<Rightarrow> Value (Result result))))"



text \<open>
  How a call ends.  \<open>asyncio.Semaphore(max_concurrent)\<close> raises \<open>ValueError\<close> for
  a negative value; with the value \<open>0\<close> no task ever enters the semaphore, so
  \<open>gather\<close> never completes unless there is no task at all.
\<close>

datatype 'r completion = Completes 'r | Throws py_error | Blocks



section \<open>The library functions the modules call: \<open>urllib.parse\<close>\<close>

text \<open>
  \<open>urlparse\<close>, \<open>urlunparse\<close>, \<open>parse_qs\<close> and \<open>urlencode\<close> belong to the Python
  standard library, not to the repository.  They are modelled after CPython 3.11's
  \<open>urllib/parse.py\<close>, on strings read as sequences of bytes (a character outside
  ASCII is its UTF-8 bytes).  Two checks of \<open>urlsplit\<close> that depend on tables of the
  library (\<open>_check_bracketed_host\<close>, which parses an IP literal, and
  \<open>_checknetloc\<close>, which normalises a non-ASCII authority) are a parameter
  \<open>host_ok\<close> of the model: it is asked only for an authority that has both brackets
  or a byte outside ASCII, and answers whether the library accepts it.
  \<open>unquote\<close> is exact where the decoded bytes are valid UTF-8.
\<close>

subsection \<open>Characters and splitting\<close>

text \<open>\<open>ord(c)\<close>: the code of a byte.\<close>

definition py_ord :: "char \<Rightarrow> nat" where
  "py_ord c = of_char c"

definition is_upper :: "char \<Rightarrow> bool" where
  "is_upper c = (py_ord CHR ''A'' \<le> py_ord c \<and> py_ord c \<le> py_ord CHR ''Z'')"

definition is_lower :: "char \<Rightarrow> bool" where
  "is_lower c = (py_ord CHR ''a'' \<le> py_ord c \<and> py_ord c \<le> py_ord CHR ''z'')"

definition is_digit :: "char \<Rightarrow> bool" where
  "is_digit c = (py_ord CHR ''0'' \<le> py_ord c \<and> py_ord c \<le> py_ord CHR ''9'')"

definition is_ascii :: "char \<Rightarrow> bool" where
  "is_ascii c = (py_ord c < 128)"

text \<open>\<open>str.lower()\<close> on ASCII letters; other bytes are kept.\<close>

definition lower_char :: "char \<Rightarrow> char" where
  "lower_char c = (if is_upper c then char_of (py_ord c + 32) else c)"

definition lower :: "string \<Rightarrow> string" where
  "lower s = map lower_char s"

text \<open>\<open>needle in haystack\<close> for strings.\<close>

fun starts_with :: "string \<Rightarrow> string \<Rightarrow> bool" where
  "starts_with [] s = True"
| "starts_with (p # ps) [] = False"
| "starts_with (p # ps) (c # cs) = (p = c \<and> starts_with ps cs)"

fun contains :: "string \<Rightarrow> string \<Rightarrow> bool" where
  "contains needle [] = (needle = [])"
| "contains needle (c # cs) = (starts_with needle (c # cs) \<or> contains needle cs)"

text \<open>
  \<open>s.split(c, 1)\<close> and \<open>s.partition(c)\<close> around the first \<open>c\<close>: the text before it
  and the text after it (empty when \<open>c\<close> does not occur).
\<close>

definition before_first :: "char \<Rightarrow> string \<Rightarrow> string" where
  "before_first c s = takeWhile (\<lambda>x. x \<noteq> c) s"

definition after_first :: "char \<Rightarrow> string \<Rightarrow> string" where
  "after_first c s = drop 1 (dropWhile (\<lambda>x. x \<noteq> c) s)"

text \<open>\<open>s.split(c)\<close>: the pieces between the occurrences of \<open>c\<close>.\<close>

fun split_on :: "char \<Rightarrow> string \<Rightarrow> string list" where
  "split_on c [] = [[]]"
| "split_on c (x # xs) =
     (if x = c then [] # split_on c xs
      else (case split_on c xs of
              [] \<Rightarrow> [[x]]
            | piece # pieces \<Rightarrow> (x # piece) # pieces))"

text \<open>\<open>sep.join(pieces)\<close>.\<close>

fun join :: "string \<Rightarrow> string list \<Rightarrow> string" where
  "join sep [] = []"
| "join sep [p] = p"
| "join sep (p # q # ps) = p @ sep @ join sep (q # ps)"

subsection \<open>\<open>urlsplit\<close>, \<open>urlparse\<close>, \<open>urlunparse\<close>\<close>

definition scheme_char :: "char \<Rightarrow> bool" where
  "scheme_char c = (is_lower c \<or> is_upper c \<or> is_digit c \<or> c \<in> set ''+-.'')"

definition uses_params :: "string list" where
  "uses_params = ['''', ''ftp'', ''hdl'', ''prospero'', ''http'', ''imap'',
                  ''https'', ''shttp'', ''rtsp'', ''rtsps'', ''rtspu'', ''sip'',
                  ''sips'', ''mms'', ''sftp'', ''tel'']"

definition uses_netloc :: "string list" where
  "uses_netloc = ['''', ''ftp'', ''http'', ''gopher'', ''nntp'', ''telnet'',
                  ''imap'', ''wais'', ''file'', ''mms'', ''https'', ''shttp'',
                  ''snews'', ''prospero'', ''rtsp'', ''rtsps'', ''rtspu'', ''rsync'',
                  ''svn'', ''svn+ssh'', ''sftp'', ''nfs'', ''git'', ''git+ssh'',
                  ''ws'', ''wss'']"

text \<open>
  The scheme: \<open>i = url.find(':')\<close>; when \<open>i > 0\<close>, \<open>url[0]\<close> is an ASCII letter
  and every character of \<open>url[:i]\<close> is a scheme character, the scheme is
  \<open>url[:i].lower()\<close> and the URL continues after the colon.
\<close>

definition split_scheme :: "string \<Rightarrow> string \<times> string" where
  "split_scheme u =
     (let pre = before_first CHR '':'' u
      in if CHR '':'' \<in> set u \<and> pre \<noteq> []
            \<and> (is_lower (hd pre) \<or> is_upper (hd pre))
            \<and> list_all scheme_char pre
         then (lower pre, after_first CHR '':'' u)
         else ('''', u))"

text \<open>\<open>_splitnetloc(url, 2)\<close>: the authority ends at the first of \<open>/ ? #\<close>.\<close>

definition netloc_char :: "char \<Rightarrow> bool" where
  "netloc_char c = (c \<notin> set ''/?#'')"

definition splitnetloc :: "string \<Rightarrow> string \<times> string" where
  "splitnetloc u = (takeWhile netloc_char (drop 2 u), dropWhile netloc_char (drop 2 u))"

record split_result =
  sr_scheme :: string
  sr_netloc :: string
  sr_path :: string
  sr_query :: string
  sr_fragment :: string

definition urlsplit :: "(string \<Rightarrow> bool) \<Rightarrow> string \<Rightarrow> py_error + split_result" where
  "urlsplit host_ok url0 =
     (let url1 = dropWhile (\<lambda>c. py_ord c \<le> 32) url0;
          url2 = filter (\<lambda>c. py_ord c \<notin> {9, 13, 10}) url1;
          (sch, url3) = split_scheme url2;
          (nl, url4) = (if take 2 url3 = ''//'' then splitnetloc url3 else ('''', url3));
          lb = CHR ''['' \<in> set nl;
          rb = CHR '']'' \<in> set nl
      in if (lb \<and> \<not> rb) \<or> (rb \<and> \<not> lb) then Inl ValueError
         else if ((lb \<and> rb) \<or> \<not> list_all is_ascii nl) \<and> \<not> host_ok nl then Inl ValueError
         else
           (let (url5, frag) =
                  (if CHR ''#'' \<in> set url4
                   then (before_first CHR ''#'' url4, after_first CHR ''#'' url4)
                   else (url4, ''''));
                (url6, q) =
                  (if CHR ''?'' \<in> set url5
                   then (before_first CHR ''?'' url5, after_first CHR ''?'' url5)
                   else (url5, ''''))
            in Inr \<lparr>sr_scheme = sch, sr_netloc = nl, sr_path = url6,
                     sr_query = q, sr_fragment = frag\<rparr>))"

text \<open>
  \<open>_splitparams(url)\<close>, called when \<open>';'\<close> occurs in \<open>url\<close>: the parameters start at
  the first \<open>';'\<close> after the last \<open>'/'\<close> (at the first \<open>';'\<close> when there is no
  slash); without such a \<open>';'\<close> there are none.
\<close>

definition splitparams :: "string \<Rightarrow> string \<times> string" where
  "splitparams u =
     (if CHR ''/'' \<in> set u then
        (let last_seg = rev (before_first CHR ''/'' (rev u));
             front = take (length u - length last_seg) u
         in if CHR '';'' \<in> set last_seg
            then (front @ before_first CHR '';'' last_seg, after_first CHR '';'' last_seg)
            else (u, ''''))
      else (before_first CHR '';'' u, after_first CHR '';'' u))"

record parse_result =
  pr_scheme :: string
  pr_netloc :: string
  pr_path :: string
  pr_params :: string
  pr_query :: string
  pr_fragment :: string

definition urlparse :: "(string \<Rightarrow> bool) \<Rightarrow> string \<Rightarrow> py_error + parse_result" where
  "urlparse host_ok u =
     (case urlsplit host_ok u of
        Inl e \<Rightarrow> Inl e
      | Inr sr \<Rightarrow>
          (let (p, ps) = (if sr_scheme sr \<in> set uses_params \<and> CHR '';'' \<in> set (sr_path sr)
                          then splitparams (sr_path sr) else (sr_path sr, ''''))
           in Inr \<lparr>pr_scheme = sr_scheme sr, pr_netloc = sr_netloc sr, pr_path = p, pr_params = ps,
                    pr_query = sr_query sr, pr_fragment = sr_fragment sr\<rparr>))"

definition urlunsplit :: "string \<Rightarrow> string \<Rightarrow> string \<Rightarrow> string \<Rightarrow> string \<Rightarrow> string" where
  "urlunsplit sch nl u0 q frag =
     (let u1 = (if nl \<noteq> [] \<or> (sch \<noteq> [] \<and> sch \<in> set uses_netloc) \<or> take 2 u0 = ''//''
                then ''//'' @ nl @ (if u0 \<noteq> [] \<and> take 1 u0 \<noteq> ''/'' then ''/'' @ u0 else u0)
                else u0);
          u2 = (if sch \<noteq> [] then sch @ '':'' @ u1 else u1);
          u3 = (if q \<noteq> [] then u2 @ ''?'' @ q else u2)
      in if frag \<noteq> [] then u3 @ ''#'' @ frag else u3)"

definition urlunparse :: "string \<Rightarrow> string \<Rightarrow> string \<Rightarrow> string \<Rightarrow> string \<Rightarrow> string \<Rightarrow> string" where
  "urlunparse sch nl u ps q frag =
     urlunsplit sch nl (if ps \<noteq> [] then u @ '';'' @ ps else u) q frag"

subsection \<open>\<open>parse_qs\<close> and \<open>urlencode\<close>\<close>

definition is_hex :: "char \<Rightarrow> bool" where
  "is_hex c = (is_digit c
      \<or> (py_ord CHR ''a'' \<le> py_ord c \<and> py_ord c \<le> py_ord CHR ''f'')
      \<or> (py_ord CHR ''A'' \<le> py_ord c \<and> py_ord c \<le> py_ord CHR ''F''))"

definition hex_val :: "char \<Rightarrow> nat" where
  "hex_val c = (if is_digit c then py_ord c - 48
                else if is_upper c then py_ord c - 55
                else py_ord c - 87)"

text \<open>
  \<open>unquote\<close>: a \<open>'%'\<close> followed by two hexadecimal digits is the byte they denote;
  any other \<open>'%'\<close> is kept.
\<close>

fun unquote :: "string \<Rightarrow> string" where
  "unquote (p # a # b # rest) =
     (if p = CHR ''%'' \<and> is_hex a \<and> is_hex b
      then char_of (16 * hex_val a + hex_val b) # unquote rest
      else p # unquote (a # b # rest))"
| "unquote s = s"

definition unquote_plus :: "string \<Rightarrow> string" where
  "unquote_plus s = unquote (map (\<lambda>c. if c = CHR ''+'' then CHR '' '' else c) s)"

definition always_safe :: "char \<Rightarrow> bool" where
  "always_safe c = (is_upper c \<or> is_lower c \<or> is_digit c \<or> c \<in> set ''_.-~'')"

definition hex_digit :: "nat \<Rightarrow> char" where
  "hex_digit n = (if n < 10 then char_of (48 + n) else char_of (55 + n))"

text \<open>\<open>quote_plus(s, safe='')\<close>, byte by byte.\<close>

definition quote_plus_char :: "char \<Rightarrow> string" where
  "quote_plus_char c =
     (if always_safe c then [c]
      else if c = CHR '' '' then ''+''
      else [CHR ''%'', hex_digit (py_ord c div 16), hex_digit (py_ord c mod 16)])"

definition quote_plus :: "string \<Rightarrow> string" where
  "quote_plus s = concat (map quote_plus_char s)"

text \<open>
  \<open>parse_qsl\<close> with the defaults: the fields between \<open>'&'\<close>; an empty field and a
  field with an empty value are skipped; name and value are unquoted.
\<close>

fun parse_fields :: "string list \<Rightarrow> (string \<times> string) list" where
  "parse_fields [] = []"
| "parse_fields (name_value # nvs) =
     (if name_value \<noteq> [] \<and> after_first CHR ''='' name_value \<noteq> []
      then (unquote_plus (before_first CHR ''='' name_value),
            unquote_plus (after_first CHR ''='' name_value)) # parse_fields nvs
      else parse_fields nvs)"

definition parse_qsl :: "string \<Rightarrow> (string \<times> string) list" where
  "parse_qsl qs = (if qs = [] then [] else parse_fields (split_on CHR ''&'' qs))"

text \<open>
  A dict from names to lists of values, in insertion order:
  \<open>parsed_result[name].append(value)\<close> for a known name, a new last entry otherwise.
\<close>

fun dict_add :: "(string \<times> string list) list \<Rightarrow> string \<Rightarrow> string \<Rightarrow> (string \<times> string list) list" where
  "dict_add [] name v = [(name, [v])]"
| "dict_add ((k, vs) # d) name v =
     (if k = name then (k, vs @ [v]) # d else (k, vs) # dict_add d name v)"

definition parse_qs :: "string \<Rightarrow> (string \<times> string list) list" where
  "parse_qs qs = foldl (\<lambda>d (name, v). dict_add d name v) [] (parse_qsl qs)"

text \<open>\<open>urlencode(d, doseq=True)\<close> for such a dict.\<close>

definition urlencode :: "(string \<times> string list) list \<Rightarrow> string" where
  "urlencode d =
     join ''&'' (concat (map (\<lambda>(k, vs). map (\<lambda>elt. quote_plus k @ ''='' @ quote_plus elt) vs) d))"

section \<open>The blocking requester: \<open>SafeRequester\<close> in \<open>core/services/safe_crawler.py\<close>\<close>

subsection \<open>The environment: clock, network, observable events\<close>

text \<open>
  A reply of the remote side to one HTTP exchange: a response (its status code, whether
  it carries a \<open>Retry-After\<close> header, its body); a response that the HTTP library
  treats as a redirect to follow (status 301, 302, 303, 307 or 308 with a \<open>Location\<close>
  header), with the URL of the next request as the library computes it, or nothing when
  the library raises while preparing that request; or a network-level error (timeout,
  connection reset, ...), which the library raises as an exception.
\<close>

record http_response =
  status_code :: int
  has_retry_after :: bool
  body :: string

datatype reply = Responds http_response | Redirects "string option" | NetworkError

text \<open>
  The network is an oracle: the \<open>n\<close>-th exchange of a run gets a reply and takes some
  time (which includes the back-off pause the HTTP library makes before a retry).
\<close>

type_synonym network = "nat \<Rightarrow> reply \<times> real"

text \<open>
  What can be observed of a run: the pacing pauses, the HTTP exchanges put on the wire
  (with the URL requested), and the writes of a last-request timestamp (key and value).
\<close>

datatype event = Slept real | is_Sent: Sent string | Stamped string real

record world =
  clock :: real
  exchanges :: nat
  trace :: "event list"

definition sleep :: "real \<Rightarrow> world \<Rightarrow> world" where
  "sleep secs w = w\<lparr>clock := clock w + secs, trace := trace w @ [Slept secs]\<rparr>"

text \<open>One exchange on the wire: the oracle is asked, the clock moves, the event is logged.\<close>

definition exchange :: "network \<Rightarrow> string \<Rightarrow> world \<Rightarrow> reply \<times> world" where
  "exchange net u w =
     (fst (net (exchanges w)),
      w\<lparr>clock := clock w + snd (net (exchanges w)),
        exchanges := exchanges w + 1,
        trace := trace w @ [Sent u]\<rparr>)"

subsection \<open>The session with its retry policy (lines 86-101)\<close>

text \<open>
  \<open>Retry(total=max_retries, backoff_factor=2, status_forcelist=[...],
  respect_retry_after_header=True, raise_on_status=False)\<close> is mounted on the session
  for \<open>http://\<close> and \<open>https://\<close>.  The list is the repository's; the loop that
  applies it is \<open>urllib3\<close>'s (\<open>Retry.is_retry\<close>, \<open>Retry.increment\<close>,
  \<open>Retry.is_exhausted\<close> and \<open>HTTPConnectionPool.urlopen\<close>, which the adapter calls
  with \<open>redirect=False\<close>), modelled here for a \<open>GET\<close>:
  a response is retried when its status is in the list, or when \<open>total\<close> is not
  zero and it has a \<open>Retry-After\<close> header and one of the statuses 413, 429, 503;
  every retry, and every network error, takes one from \<open>total\<close>; when that would go
  below zero, a response is handed back as it is (\<open>raise_on_status=False\<close>) and a
  network error is raised.  A redirect is handed back to the session at once.
\<close>

definition status_forcelist :: "int list" where
  "status_forcelist = [429, 500, 502, 503, 504, 403, 502]"

definition is_retry :: "int \<Rightarrow> http_response \<Rightarrow> bool" where
  "is_retry total_left response =
     (status_code response \<in> set status_forcelist
      \<or> (total_left \<noteq> 0 \<and> has_retry_after response \<and> status_code response \<in> {413, 429, 503}))"

text \<open>
  \<open>HTTPAdapter.send\<close> for one request: the last reply of the loop, where
  \<open>NetworkError\<close> stands for the exception raised when the budget is used up.
\<close>

function adapter_send :: "network \<Rightarrow> int \<Rightarrow> string \<Rightarrow> world \<Rightarrow> reply \<times> world" where
  "adapter_send net total_left u w =
     (case exchange net u w of
        (Responds response, w') \<Rightarrow>
          if is_retry total_left response then
            (if total_left - 1 < 0 then (Responds response, w')
             else adapter_send net (total_left - 1) u w')
          else (Responds response, w')
      | (Redirects target, w') \<Rightarrow> (Redirects target, w')
      | (NetworkError, w') \<Rightarrow>
          if total_left - 1 < 0 then (NetworkError, w')
          else adapter_send net (total_left - 1) u w')"
  by pat_completeness auto
termination
  by (relation "measure (\<lambda>(net, total_left, u, w). nat total_left)") auto

text \<open>
  What \<open>session.get(url)\<close> ends with: a response, or an exception.  The handlers of
  \<open>SafeRequester.get\<close> catch every \<open>Exception\<close>, so its class is not kept.
\<close>

datatype request_exception = RequestException

text \<open>
  \<open>Session.resolve_redirects\<close> (\<open>allow_redirects\<close> is on for a \<open>GET\<close>): each
  redirect is a new request through the adapter, with the whole retry budget again;
  \<open>hops\<close> counts the redirects followed so far, and the library raises
  \<open>TooManyRedirects\<close> at a redirect when 30 have been followed.
\<close>

function follow_redirects ::
  "network \<Rightarrow> int \<Rightarrow> nat \<Rightarrow> string \<Rightarrow> world \<Rightarrow> (request_exception + http_response) \<times> world" where
  "follow_redirects net budget hops u w =
     (case adapter_send net budget u w of
        (Responds response, w') \<Rightarrow> (Inr response, w')
      | (NetworkError, w') \<Rightarrow> (Inl RequestException, w')
      | (Redirects target, w') \<Rightarrow>
          if 30 \<le> hops then (Inl RequestException, w')
          else (case target of
                  None \<Rightarrow> (Inl RequestException, w')
                | Some next_url \<Rightarrow> follow_redirects net budget (hops + 1) next_url w'))"
  by pat_completeness auto
termination
  by (relation "measure (\<lambda>(net, budget, hops, u, w). 30 - hops)") auto

text \<open>
  \<open>session.get(url)\<close>.  Before anything is sent the library prepares the request
  (\<open>PreparedRequest.prepare_url\<close>) and looks for the adapter of the URL; it raises
  \<open>MissingSchema\<close>, \<open>InvalidSchema\<close> or \<open>InvalidURL\<close> for a URL it does not
  accept.  Whether it accepts a URL is the parameter \<open>url_ok\<close>.
\<close>

definition session_get ::
  "(string \<Rightarrow> bool) \<Rightarrow> network \<Rightarrow> int \<Rightarrow> string \<Rightarrow> world \<Rightarrow> (request_exception + http_response) \<times> world" where
  "session_get url_ok net budget u w =
     (if url_ok u then follow_redirects net budget 0 u w else (Inl RequestException, w))"

subsection \<open>\<open>SafeRequester\<close>\<close>

text \<open>
  The fields of the requester that pacing and retrying use.  The pools of user agents
  (non-empty lists set by the constructor) and the per-platform headers only decorate the
  request; computing them inside the \<open>try\<close> parses the URL again, which succeeds
  since it did before the \<open>try\<close>.
\<close>

record safe_requester =
  min_delay :: real
  max_retries :: int
  last_request_time :: "string \<rightharpoonup> real"

text \<open>\<open>SafeRequester(min_delay, max_retries)\<close>\<close>

definition new_safe_requester :: "real \<Rightarrow> int \<Rightarrow> safe_requester" where
  "new_safe_requester d r = \<lparr>min_delay = d, max_retries = r, last_request_time = Map.empty\<rparr>"

text \<open>\<open>_get_domain\<close>: \<open>urlparse(url).netloc\<close>; \<open>urlparse\<close> may raise \<open>ValueError\<close>.\<close>

definition get_domain :: "(string \<Rightarrow> bool) \<Rightarrow> string \<Rightarrow> py_error + string" where
  "get_domain host_ok u = (case urlparse host_ok u of Inl e \<Rightarrow> Inl e | Inr p \<Rightarrow> Inr (pr_netloc p))"

text \<open>\<open>_wait_if_needed(domain)\<close> (lines 174-181)\<close>

definition wait_if_needed :: "safe_requester \<Rightarrow> string \<Rightarrow> world \<Rightarrow> world" where
  "wait_if_needed rq domain w =
     (case last_request_time rq domain of
        None \<Rightarrow> w
      | Some last_time \<Rightarrow>
          (let elapsed = clock w - last_time
           in if elapsed < min_delay rq then sleep (min_delay rq - elapsed) w else w))"

text \<open>
  \<open>get(url)\<close> (lines 183-241), called without keyword arguments.  \<open>_get_domain\<close>
  and \<open>_wait_if_needed\<close> run before the \<open>try\<close>, so a \<open>ValueError\<close> of
  \<open>urlparse\<close> leaves the method.  Inside the \<open>try\<close>: the session call, then the
  timestamp of the domain, then the chain over the status code, every branch of which
  returns the response.  Every exception raised inside the \<open>try\<close> is logged and the
  method returns \<open>None\<close>.
\<close>

definition get ::
  "(string \<Rightarrow> bool) \<Rightarrow> (string \<Rightarrow> bool) \<Rightarrow> network \<Rightarrow> safe_requester \<Rightarrow> world \<Rightarrow> string
     \<Rightarrow> py_error + (http_response option \<times> safe_requester \<times> world)" where
  "get host_ok url_ok net rq w u =
     (case get_domain host_ok u of
        Inl e \<Rightarrow> Inl e
      | Inr domain \<Rightarrow>
          (let w1 = wait_if_needed rq domain w
           in case session_get url_ok net (max_retries rq) u w1 of
                (Inr response, w2) \<Rightarrow>
                  (let rq' = rq\<lparr>last_request_time := (last_request_time rq)(domain \<mapsto> clock w2)\<rparr>;
                       w3 = w2\<lparr>trace := trace w2 @ [Stamped domain (clock w2)]\<rparr>
                   in if status_code response = 200 then Inr (Some response, rq', w3)
                      else if status_code response = 404 then Inr (Some response, rq', w3)
                      else if status_code response = 403 then Inr (Some response, rq', w3)
                      else if status_code response = 429 then Inr (Some response, rq', w3)
                      else Inr (Some response, rq', w3))
              | (Inl ex, w2) \<Rightarrow> Inr (None, rq, w2)))"

text \<open>
  The world after exchanges for the URLs \<open>us\<close>, one after the other; used to state
  what the loops of the session put on the wire.
\<close>

definition after_exchanges :: "network \<Rightarrow> string list \<Rightarrow> world \<Rightarrow> world" where
  "after_exchanges net us w = foldl (\<lambda>w u. snd (exchange net u w)) w us"

section \<open>The platform pacer: \<open>core/utils_modules/platform_strategies.py\<close>\<close>

subsection \<open>Strategies\<close>

text \<open>
  The fields of \<open>PlatformStrategy\<close> that pacing, retrying, limiting and the choice of
  headers read.  The extra headers and the time-outs are constants copied into the request.
\<close>

record platform_strategy =
  ps_name :: string
  min_interval :: real
  max_interval :: real
  ps_max_retries :: int
  retry_backoff :: real
  user_agents :: "string list"
  max_concurrent :: int
  requires_mobile_ua :: bool
  requires_referer :: bool

text \<open>The default of the field \<open>user_agents\<close>.\<close>

definition default_user_agents :: "string list" where
  "default_user_agents =
     [''Mozilla/5.0 (Windows NT 10.0; Win64; x64) AppleWebKit/537.36 (KHTML, like Gecko) Chrome/91.0.4472.124 Safari/537.36'',
      ''Mozilla/5.0 (Macintosh; Intel Mac OS X 10_15_7) AppleWebKit/537.36 (KHTML, like Gecko) Chrome/91.0.4472.124 Safari/537.36'',
      ''Mozilla/5.0 (X11; Linux x86_64) AppleWebKit/537.36 (KHTML, like Gecko) Chrome/91.0.4472.124 Safari/537.36'']"

text \<open>
  \<open>get_headers(url)\<close> (lines 46-70): \<open>random.choice(self.user_agents)\<close> raises
  \<open>IndexError\<close> on an empty list; with \<open>requires_referer\<close> and a non-empty URL,
  \<open>urlparse(url)\<close> may raise \<open>ValueError\<close>.  The result kept is the \<open>Referer\<close>
  header; the other headers do not depend on the URL.
\<close>

definition get_headers :: "(string \<Rightarrow> bool) \<Rightarrow> platform_strategy \<Rightarrow> string \<Rightarrow> py_error + string option" where
  "get_headers host_ok strategy u =
     (if user_agents strategy = [] then Inl IndexError
      else if requires_referer strategy \<and> u \<noteq> [] then
        (case urlparse host_ok u of
           Inl e \<Rightarrow> Inl e
         | Inr parsed \<Rightarrow> Inr (Some (pr_scheme parsed @ ''://'' @ pr_netloc parsed @ ''/'')))
      else Inr None)"

text \<open>
  \<open>get_request_interval\<close>: \<open>random.uniform(min_interval, max_interval)\<close>, that is
  \<open>a + (b - a) * random()\<close>.  The draw \<open>random()\<close> is an argument.
\<close>

definition get_request_interval :: "platform_strategy \<Rightarrow> real \<Rightarrow> real" where
  "get_request_interval strategy draw =
     min_interval strategy + (max_interval strategy - min_interval strategy) * draw"

record platform_manager =
  strategies :: "string \<rightharpoonup> platform_strategy"
  last_request_times :: "string \<rightharpoonup> real"

text \<open>\<open>_init_default_strategies\<close> (lines 93-150)\<close>

definition default_strategies :: "string \<rightharpoonup> platform_strategy" where
  "default_strategies =
     [''douyin'' \<mapsto> \<lparr>ps_name = ''douyin'', min_interval = 6, max_interval = 10,
                       ps_max_retries = 2, retry_backoff = 3,
                       user_agents = default_user_agents, max_concurrent = 2,
                       requires_mobile_ua = True, requires_referer = True\<rparr>,
      ''xiaohongshu'' \<mapsto> \<lparr>ps_name = ''xiaohongshu'', min_interval = 4, max_interval = 7,
                       ps_max_retries = 3, retry_backoff = 2,
                       user_agents = default_user_agents, max_concurrent = 2,
                       requires_mobile_ua = False, requires_referer = True\<rparr>,
      ''zhihu'' \<mapsto> \<lparr>ps_name = ''zhihu'', min_interval = 2, max_interval = 4,
                       ps_max_retries = 3, retry_backoff = 3 / 2,
                       user_agents = default_user_agents, max_concurrent = 3,
                       requires_mobile_ua = False, requires_referer = False\<rparr>,
      ''default'' \<mapsto> \<lparr>ps_name = ''default'', min_interval = 3, max_interval = 5,
                       ps_max_retries = 3, retry_backoff = 2,
                       user_agents = default_user_agents, max_concurrent = 2,
                       requires_mobile_ua = False, requires_referer = False\<rparr>]"

text \<open>\<open>PlatformStrategyManager()\<close>\<close>

definition new_platform_manager :: platform_manager where
  "new_platform_manager = \<lparr>strategies = default_strategies, last_request_times = Map.empty\<rparr>"

text \<open>\<open>detect_platform\<close> (lines 152-163): substrings of the whole lower-cased URL.\<close>

definition detect_platform :: "string \<Rightarrow> string" where
  "detect_platform u =
     (let url_lower = lower u
      in if contains ''douyin.com'' url_lower \<or> contains ''iesdouyin.com'' url_lower then ''douyin''
         else if contains ''xiaohongshu.com'' url_lower \<or> contains ''xhs.com'' url_lower then ''xiaohongshu''
         else if contains ''zhihu.com'' url_lower then ''zhihu''
         else ''default'')"

text \<open>
  \<open>get_strategy\<close> (lines 165-174).  The last line is
  \<open>self._strategies.get(platform, self._strategies["default"])\<close>: the subscript is
  evaluated before \<open>get\<close> is called and raises \<open>KeyError\<close> without a default strategy.
\<close>

definition get_strategy :: "platform_manager \<Rightarrow> string \<Rightarrow> py_error + platform_strategy" where
  "get_strategy mgr url_or_platform =
     (let platform = (if strategies mgr url_or_platform \<noteq> None then url_or_platform
                      else detect_platform url_or_platform)
      in case strategies mgr ''default'' of
           None \<Rightarrow> Inl KeyError
         | Some dflt \<Rightarrow>
             (case strategies mgr platform of None \<Rightarrow> Inr dflt | Some s \<Rightarrow> Inr s))"

subsection \<open>\<open>wait_if_needed\<close> (lines 176-192), run by one coroutine alone\<close>

definition pm_wait_if_needed ::
  "platform_manager \<Rightarrow> real \<Rightarrow> string \<Rightarrow> world \<Rightarrow> py_error + (platform_manager \<times> world)" where
  "pm_wait_if_needed mgr draw u w =
     (let platform = detect_platform u
      in case get_strategy mgr platform of
           Inl e \<Rightarrow> Inl e
         | Inr strategy \<Rightarrow>
             (let last_time = (case last_request_times mgr platform of None \<Rightarrow> 0 | Some t \<Rightarrow> t);
                  current_time = clock w;
                  time_since_last = current_time - last_time;
                  required_interval = get_request_interval strategy draw;
                  w1 = (if time_since_last < required_interval
                        then sleep (required_interval - time_since_last) w else w);
                  mgr' = mgr\<lparr>last_request_times := (last_request_times mgr)(platform \<mapsto> clock w1)\<rparr>
              in Inr (mgr', w1\<lparr>trace := trace w1 @ [Stamped platform (clock w1)]\<rparr>)))"

subsection \<open>\<open>AsyncSafeRequester.get\<close> (lines 539-587), run by one coroutine alone\<close>

text \<open>
  What \<open>async with self.session.get(url) as response: await response.read()\<close> does is
  the HTTP library's and the network's: the requests it puts on the wire (none when the
  library rejects the URL, several when it follows redirects or sends again after a
  disconnect), the time it takes, and how it ends (a response, or an exception).  It is an
  oracle, asked with the URL and the number of exchanges made so far.
\<close>

record aio_outcome =
  requested :: "string list"
  took :: real
  answer :: "http_response option"

type_synonym aio_session = "string \<Rightarrow> nat \<Rightarrow> aio_outcome"

definition aio_get :: "aio_session \<Rightarrow> string \<Rightarrow> world \<Rightarrow> http_response option \<times> world" where
  "aio_get session u w =
     (let out = session u (exchanges w)
      in (answer out,
          w\<lparr>clock := clock w + took out,
            exchanges := exchanges w + length (requested out),
            trace := trace w @ map Sent (requested out)\<rparr>))"

text \<open>
  \<open>get(url)\<close>, called without keyword arguments.  Without a session the method raises
  \<open>RuntimeError\<close>.  Otherwise it enters the semaphore, which blocks when no permit is
  free (\<open>permits\<close> is the value of the semaphore at the call).  Inside: the pacer's
  wait, the strategy and its headers, and then the session call in a \<open>try\<close> whose
  handlers catch every \<open>Exception\<close> and return \<open>None\<close>; a response of any status
  is returned.  An exception of \<open>get_strategy\<close> or \<open>get_headers\<close> leaves the
  method, after the pacer has written its timestamp.  There is no retry in this method.
  The result is how the call ends, with the state of the pacer and of the world then.
\<close>

definition async_get ::
  "(string \<Rightarrow> bool) \<Rightarrow> aio_session \<Rightarrow> bool \<Rightarrow> nat \<Rightarrow> platform_manager \<Rightarrow> real \<Rightarrow> world \<Rightarrow> string
     \<Rightarrow> http_response option completion \<times> platform_manager \<times> world" where
  "async_get host_ok session has_session permits mgr draw w u =
     (if \<not> has_session then (Throws RuntimeError, mgr, w)
      else if permits = 0 then (Blocks, mgr, w)
      else case pm_wait_if_needed mgr draw u w of
             Inl e \<Rightarrow> (Throws e, mgr, w)
           | Inr (mgr', w1) \<Rightarrow>
               (case get_strategy mgr' u of
                  Inl e \<Rightarrow> (Throws e, mgr', w1)
                | Inr strategy \<Rightarrow>
                    (case get_headers host_ok strategy u of
                       Inl e \<Rightarrow> (Throws e, mgr', w1)
                     | Inr headers \<Rightarrow>
                         (case aio_get session u w1 of
                            (response, w2) \<Rightarrow> (Completes response, mgr', w2)))))"

subsection \<open>Several coroutines in \<open>wait_if_needed\<close>\<close>

text \<open>
  Coroutines of one event loop run one at a time and give up control only at an
  \<open>await\<close>.  \<open>wait_if_needed\<close> has a single one, \<open>await asyncio.sleep(wait_time)\<close>,
  between reading the timestamp and writing it, and it is reached only when a wait is
  needed.  So a call is one step when no wait is needed, and two steps otherwise: the
  first reads the timestamp and the clock and suspends until the wake-up time, the second
  writes the timestamp.  A coroutine that has left \<open>wait_if_needed\<close> goes on to its
  network call; the time of its release is kept.
\<close>

datatype stage =
    Ready string real
  | Sleeping string real real
  | Released string real real

text \<open>
  \<open>Ready url draw\<close>: about to call \<open>wait_if_needed(url)\<close>, with its random draw.
  \<open>Sleeping platform elapsed wake\<close>: suspended in \<open>asyncio.sleep\<close> after computing
  \<open>time_since_last = elapsed\<close>.  \<open>Released platform elapsed at\<close>: left the method at
  time \<open>at\<close>, having computed \<open>elapsed\<close>.
\<close>

record loop_state =
  manager :: platform_manager
  now :: real
  tasks :: "stage list"

text \<open>What the event loop does next: let time pass, or resume a coroutine.\<close>

datatype action = Tick real | Resume nat

definition resume :: "stage \<Rightarrow> platform_manager \<Rightarrow> real \<Rightarrow> stage \<times> platform_manager" where
  "resume st mgr t =
     (case st of
        Ready u draw \<Rightarrow>
          (let platform = detect_platform u
           in case get_strategy mgr platform of
                Inl e \<Rightarrow> (st, mgr)
              | Inr strategy \<Rightarrow>
                  (let last_time = (case last_request_times mgr platform of None \<Rightarrow> 0 | Some x \<Rightarrow> x);
                       time_since_last = t - last_time;
                       required_interval = get_request_interval strategy draw
                   in if time_since_last < required_interval
                      then (Sleeping platform time_since_last (t + (required_interval - time_since_last)), mgr)
                      else (Released platform time_since_last t,
                            mgr\<lparr>last_request_times := (last_request_times mgr)(platform \<mapsto> t)\<rparr>)))
      | Sleeping platform elapsed wake \<Rightarrow>
          (if wake \<le> t
           then (Released platform elapsed t,
                 mgr\<lparr>last_request_times := (last_request_times mgr)(platform \<mapsto> t)\<rparr>)
           else (st, mgr))
      | Released platform elapsed t0 \<Rightarrow> (st, mgr))"

definition step :: "action \<Rightarrow> loop_state \<Rightarrow> loop_state" where
  "step a s =
     (case a of
        Tick dt \<Rightarrow> (if 0 \<le> dt then s\<lparr>now := now s + dt\<rparr> else s)
      | Resume i \<Rightarrow>
          (if i < length (tasks s)
           then (let (st', mgr') = resume (tasks s ! i) (manager s) (now s)
                 in s\<lparr>manager := mgr', tasks := (tasks s)[i := st']\<rparr>)
           else s))"

definition run :: "action list \<Rightarrow> loop_state \<Rightarrow> loop_state" where
  "run as s = foldl (\<lambda>s a. step a s) s as"

section \<open>The result cache: \<open>core/managers/cache_manager.py\<close>\<close>

subsection \<open>Dicts in insertion order\<close>

text \<open>
  A Python dict as a list of pairs in insertion order: \<open>d.get(k)\<close>, \<open>d[k] = v\<close>
  (in place for a known key, at the end for a new one) and \<open>del d[k]\<close>.
\<close>

definition dict_get :: "('k \<times> 'v) list \<Rightarrow> 'k \<Rightarrow> 'v option" where
  "dict_get d k = map_of d k"

fun dict_set :: "('k \<times> 'v) list \<Rightarrow> 'k \<Rightarrow> 'v \<Rightarrow> ('k \<times> 'v) list" where
  "dict_set [] k v = [(k, v)]"
| "dict_set ((k', v') # d) k v = (if k' = k then (k, v) # d else (k', v') # dict_set d k v)"

definition dict_del :: "('k \<times> 'v) list \<Rightarrow> 'k \<Rightarrow> ('k \<times> 'v) list" where
  "dict_del d k = filter (\<lambda>kv. fst kv \<noteq> k) d"

subsection \<open>Cache keys (lines 68-102)\<close>

definition volatile_params :: "string list" where
  "volatile_params = [''timestamp'', ''ts'', ''_t'', ''time'']"

text \<open>
  \<open>_normalize_url\<close>: for an authority that contains \<open>douyin.com\<close> or
  \<open>iesdouyin.com\<close> the query is parsed, the four volatile names are dropped and the
  rest is encoded again; for every other authority the query is kept.  The fragment is
  replaced by the empty string in both branches.
\<close>

definition normalize_url :: "(string \<Rightarrow> bool) \<Rightarrow> string \<Rightarrow> py_error + string" where
  "normalize_url host_ok u =
     (case urlparse host_ok u of
        Inl e \<Rightarrow> Inl e
      | Inr parsed \<Rightarrow>
          if contains ''douyin.com'' (pr_netloc parsed) \<or> contains ''iesdouyin.com'' (pr_netloc parsed) then
            (let query_params = parse_qs (pr_query parsed);
                 important_params = filter (\<lambda>kv. fst kv \<notin> set volatile_params) query_params;
                 new_query = urlencode important_params
             in Inr (urlunparse (pr_scheme parsed) (pr_netloc parsed) (pr_path parsed)
                       (pr_params parsed) new_query ''''))
          else Inr (urlunparse (pr_scheme parsed) (pr_netloc parsed) (pr_path parsed)
                      (pr_params parsed) (pr_query parsed) ''''))"

text \<open>
  \<open>_get_url_hash\<close>: \<open>hashlib.md5(normalized_url.encode('utf-8')).hexdigest()\<close>.  The
  digest is a function of the standard library; it is the parameter \<open>md5_hex\<close>.
\<close>

definition get_url_hash :: "(string \<Rightarrow> string) \<Rightarrow> (string \<Rightarrow> bool) \<Rightarrow> string \<Rightarrow> py_error + string" where
  "get_url_hash md5_hex host_ok u =
     (case normalize_url host_ok u of Inl e \<Rightarrow> Inl e | Inr normalized_url \<Rightarrow> Inr (md5_hex normalized_url))"

text \<open>
  Where an example needs values of the digest, they come from this table: what
  \<open>hashlib.md5(s.encode('utf-8')).hexdigest()\<close> gives for the normalised URLs of the
  examples.  No example applies the digest to any other string.
\<close>

definition example_md5 :: "string \<Rightarrow> string" where
  "example_md5 s =
     (case map_of
        [(''https://a.example/x'', ''c565384b205789329e48af200d0aeb30''),
         (''https://a.example/x?ts=1'', ''354db60051902b87213c23b80f3cacb8''),
         (''https://a.example/x?ts=2'', ''eda4300d1a251be6006dc1299436ad81''),
         (''https://a.example/new'', ''f5c75db177ad444bcf6dbf26c0392af5''),
         (''https://www.douyin.com/x'', ''3bbe3f1dc09d589110037de4006c991d'')] s of
        Some digest \<Rightarrow> digest
      | None \<Rightarrow> '''')"

subsection \<open>The cache: index and payload files\<close>

text \<open>
  An entry of \<open>index["entries"]\<close> is a dict read with \<open>.get\<close>, so each of its keys
  may be missing; \<open>save_result\<close> writes all four.
\<close>

record index_entry =
  ie_url :: "string option"
  ie_url_hash :: "string option"
  ie_cached_at :: "real option"
  ie_file_size :: "nat option"

definition empty_entry :: index_entry where
  "empty_entry = \<lparr>ie_url = None, ie_url_hash = None, ie_cached_at = None, ie_file_size = None\<rparr>"

text \<open>\<open>entry.get("cached_at", 0)\<close> and \<open>entry.get("url_hash", "")\<close>\<close>

definition cached_at :: "index_entry \<Rightarrow> real" where
  "cached_at e = (case ie_cached_at e of None \<Rightarrow> 0 | Some t \<Rightarrow> t)"

definition entry_hash :: "index_entry \<Rightarrow> string" where
  "entry_hash e = (case ie_url_hash e of None \<Rightarrow> '''' | Some h \<Rightarrow> h)"

text \<open>The dict that \<open>save_result\<close> writes into a payload file and \<open>get_cached_result\<close> returns.\<close>

record 'p cache_data =
  cd_url :: string
  cd_url_hash :: string
  cd_cached_at :: real
  cd_result :: 'p

text \<open>
  A path \<open><hash>.json\<close> of the cache directory: what \<open>json.load\<close> gives for it,
  or the fact that opening or parsing it raises (a damaged file, a directory of that
  name); its size in bytes; whether \<open>unlink()\<close> succeeds on it; and whether
  \<open>open(path, 'w')\<close> succeeds on it.
\<close>

datatype 'p file_content = Json "'p cache_data" | Unreadable

record 'p cache_file =
  cf_content :: "'p file_content"
  cf_size :: nat
  cf_unlink_ok :: bool
  cf_write_ok :: bool

text \<open>
  The state of a \<open>DocumentCache\<close>: the two settings the operations read, the entries of
  the index (a dict from hash to entry), the paths \<open><hash>.json\<close> of the cache
  directory by the hash in their name (\<open>cache_index.json\<close> is not one of them), and
  whether a new file can be created in the directory.  The copy of the index on disk is
  written after each change and read only by the constructor; a failure to write it is
  caught inside \<open>_save_index\<close>.  The directory itself can be listed and its paths
  can be examined (\<open>exists\<close>, \<open>stat\<close>).
\<close>

record 'p document_cache =
  cache_expiry_seconds :: real
  max_cache_size_mb :: real
  entries :: "(string \<times> index_entry) list"
  files :: "(string \<times> 'p cache_file) list"
  dir_writable :: bool


subsection \<open>Lookup (lines 108-157)\<close>

text \<open>\<open>_is_cache_valid(cache_entry)\<close> at the time \<open>current_time\<close>.\<close>

definition is_cache_valid :: "'p document_cache \<Rightarrow> real \<Rightarrow> index_entry option \<Rightarrow> bool" where
  "is_cache_valid c current_time cache_entry =
     (case cache_entry of
        None \<Rightarrow> False
      | Some e \<Rightarrow>
          if e = empty_entry then False
          else if current_time - cached_at e > cache_expiry_seconds c then False
          else if dict_get (files c) (entry_hash e) = None then False
          else True)"

text \<open>
  \<open>_remove_cache_entry(url_hash)\<close> (lines 207-221).  One \<open>try\<close> holds both steps:
  \<open>if cache_file.exists(): cache_file.unlink()\<close>, then the deletion of the index
  entry.  When \<open>unlink\<close> raises, the handler logs the error and the index entry is
  left in place.
\<close>

definition remove_cache_entry :: "'p document_cache \<Rightarrow> string \<Rightarrow> 'p document_cache" where
  "remove_cache_entry c url_hash =
     (case dict_get (files c) url_hash of
        None \<Rightarrow> c\<lparr>entries := dict_del (entries c) url_hash\<rparr>
      | Some f \<Rightarrow>
          if cf_unlink_ok f
          then c\<lparr>files := dict_del (files c) url_hash, entries := dict_del (entries c) url_hash\<rparr>
          else c)"

text \<open>
  \<open>get_cached_result(url)\<close>.  The hash is computed outside the \<open>try\<close>, so a
  \<open>ValueError\<close> of \<open>urlparse\<close> leaves the method.
\<close>

definition get_cached_result ::
  "(string \<Rightarrow> string) \<Rightarrow> (string \<Rightarrow> bool) \<Rightarrow> 'p document_cache \<Rightarrow> real \<Rightarrow> string
     \<Rightarrow> py_error + ('p cache_data option \<times> 'p document_cache)" where
  "get_cached_result md5_hex host_ok c current_time u =
     (case get_url_hash md5_hex host_ok u of
        Inl e \<Rightarrow> Inl e
      | Inr url_hash \<Rightarrow>
          (let cache_entry = dict_get (entries c) url_hash
           in if \<not> is_cache_valid c current_time cache_entry then
                (if cache_entry \<noteq> None \<and> cache_entry \<noteq> Some empty_entry
                 then Inr (None, remove_cache_entry c url_hash)
                 else Inr (None, c))
              else
                (case dict_get (files c) url_hash of
                   Some f \<Rightarrow>
                     (case cf_content f of
                        Json cached_data \<Rightarrow> Inr (Some cached_data, c)
                      | Unreadable \<Rightarrow> Inr (None, remove_cache_entry c url_hash))
                 | None \<Rightarrow> Inr (None, remove_cache_entry c url_hash))))"

subsection \<open>Size check and eviction (lines 223-258)\<close>

text \<open>\<open>_get_cache_size_mb\<close>: the bytes of all paths \<open>*.json\<close> but the index, in MB.\<close>

definition total_size :: "'p document_cache \<Rightarrow> nat" where
  "total_size c = sum_list (map (\<lambda>kv. cf_size (snd kv)) (files c))"

definition get_cache_size_mb :: "'p document_cache \<Rightarrow> real" where
  "get_cache_size_mb c = real (total_size c) / (1024 * 1024)"

text \<open>
  The loop \<open>for i in range(cleanup_count): url_hash, entry = entries[i];
  self._remove_cache_entry(url_hash)\<close> over the sorted copy of the entries;
  \<open>entries[i]\<close> raises \<open>IndexError\<close> when the copy has no such element.  The result
  is the exception, if any, and the state reached.
\<close>

fun cleanup_loop :: "(string \<times> index_entry) list \<Rightarrow> nat \<Rightarrow> 'p document_cache \<Rightarrow> py_error option \<times> 'p document_cache" where
  "cleanup_loop sorted_entries 0 c = (None, c)"
| "cleanup_loop [] (Suc n) c = (Some IndexError, c)"
| "cleanup_loop ((url_hash, entry) # sorted_entries) (Suc n) c =
     cleanup_loop sorted_entries n (remove_cache_entry c url_hash)"

text \<open>
  \<open>_cleanup_old_entries\<close>: \<open>entries.sort(key=lambda x: x[1].get("cached_at", 0))\<close>
  (a stable sort), \<open>cleanup_count = max(1, len(entries) // 4)\<close>.
\<close>

definition cleanup_old_entries :: "'p document_cache \<Rightarrow> py_error option \<times> 'p document_cache" where
  "cleanup_old_entries c =
     (let sorted_entries = sort_key (\<lambda>kv. cached_at (snd kv)) (entries c);
          cleanup_count = max 1 (length sorted_entries div 4)
      in cleanup_loop sorted_entries cleanup_count c)"

definition cleanup_if_needed :: "'p document_cache \<Rightarrow> py_error option \<times> 'p document_cache" where
  "cleanup_if_needed c =
     (let current_size = get_cache_size_mb c
      in if current_size > max_cache_size_mb c then cleanup_old_entries c else (None, c))"

subsection \<open>Store (lines 159-205)\<close>

text \<open>
  \<open>open(cache_file, 'w')\<close>: on an existing path it succeeds when the path can be
  written; a new file is created when the directory allows it, and can then be deleted
  and written again.  The result is the pair of flags of the open file, or nothing when
  \<open>open\<close> raises.
\<close>

definition open_for_writing :: "'p document_cache \<Rightarrow> string \<Rightarrow> (bool \<times> bool) option" where
  "open_for_writing c url_hash =
     (case dict_get (files c) url_hash of
        Some f \<Rightarrow> if cf_write_ok f then Some (cf_unlink_ok f, cf_write_ok f) else None
      | None \<Rightarrow> if dir_writable c then Some (True, True) else None)"

text \<open>
  \<open>save_result(url, result)\<close>.  The whole body is in a \<open>try\<close>: any exception is
  logged and the method returns \<open>False\<close>, otherwise \<open>True\<close>.  The clock is read
  twice, for the payload (\<open>data_time\<close>) and for the index entry
  (\<open>current_time\<close>).  \<open>dump\<close> is \<open>json.dump\<close> on the payload: \<open>Inr n\<close> when it
  writes the \<open>n\<close> bytes of the document, \<open>Inl n\<close> when it raises (a result that
  cannot be serialised) after \<open>n\<close> bytes have reached the file, which then holds no
  JSON document and has no index entry.
\<close>

definition save_result ::
  "(string \<Rightarrow> string) \<Rightarrow> (string \<Rightarrow> bool) \<Rightarrow> ('p cache_data \<Rightarrow> nat + nat) \<Rightarrow> 'p document_cache
     \<Rightarrow> real \<Rightarrow> real \<Rightarrow> string \<Rightarrow> 'p \<Rightarrow> bool \<times> 'p document_cache" where
  "save_result md5_hex host_ok dump c data_time current_time u result =
     (case get_url_hash md5_hex host_ok u of
        Inl e \<Rightarrow> (False, c)
      | Inr url_hash \<Rightarrow>
          (let cache_data = \<lparr>cd_url = u, cd_url_hash = url_hash, cd_cached_at = data_time,
                             cd_result = result\<rparr>
           in case open_for_writing c url_hash of
                None \<Rightarrow> (False, c)
              | Some (unlink_ok, write_ok) \<Rightarrow>
                  (case dump cache_data of
                     Inl n \<Rightarrow>
                       (False, c\<lparr>files := dict_set (files c) url_hash
                                   \<lparr>cf_content = Unreadable, cf_size = n,
                                    cf_unlink_ok = unlink_ok, cf_write_ok = write_ok\<rparr>\<rparr>)
                   | Inr n \<Rightarrow>
                       (let c1 = c\<lparr>files := dict_set (files c) url_hash
                                     \<lparr>cf_content = Json cache_data, cf_size = n,
                                      cf_unlink_ok = unlink_ok, cf_write_ok = write_ok\<rparr>,
                                   entries := dict_set (entries c) url_hash
                                     \<lparr>ie_url = Some u, ie_url_hash = Some url_hash,
                                      ie_cached_at = Some current_time, ie_file_size = Some n\<rparr>\<rparr>
                        in case cleanup_if_needed c1 of
                             (None, c') \<Rightarrow> (True, c')
                           | (Some e, c') \<Rightarrow> (False, c')))))"

text \<open>
  Whether \<open>_remove_cache_entry(url_hash)\<close> gets past its first step: there is no such
  path, or \<open>unlink\<close> succeeds on it.
\<close>

definition removable :: "'p document_cache \<Rightarrow> string \<Rightarrow> bool" where
  "removable c url_hash =
     (case dict_get (files c) url_hash of None \<Rightarrow> True | Some f \<Rightarrow> cf_unlink_ok f)"

section \<open>Properties of the batch functions\<close>

subsection \<open>What the loops compute\<close>








lemma process_single_url_cases:
  "(\<exists>v. f u = Returns v \<and> process_single_url cb f n u k = Value (Result v))
   \<or> (\<exists>m. process_single_url cb f n u k = Value (make_error m u))"
  by (auto simp: process_single_url_def split: outcome.splits)




subsection \<open>Failure isolation\<close>



subsection \<open>One slot per URL, in order\<close>



section \<open>Properties of the blocking requester\<close>

subsection \<open>Exchanges\<close>

lemma exchange_simps:
  "fst (exchange net u w) = fst (net (exchanges w))"
  "exchanges (snd (exchange net u w)) = Suc (exchanges w)"
  "trace (snd (exchange net u w)) = trace w @ [Sent u]"
  "clock (snd (exchange net u w)) = clock w + snd (net (exchanges w))"
  by (simp_all add: exchange_def)

lemma after_exchanges_Nil: "after_exchanges net [] w = w"
  by (simp add: after_exchanges_def)

lemma after_exchanges_Cons:
  "after_exchanges net (u # us) w = after_exchanges net us (snd (exchange net u w))"
  by (simp add: after_exchanges_def)

lemma after_exchanges_append:
  "after_exchanges net (us @ vs) w = after_exchanges net vs (after_exchanges net us w)"
  by (simp add: after_exchanges_def)

lemma after_exchanges_trace:
  "trace (after_exchanges net us w) = trace w @ map Sent us"
  by (induction us arbitrary: w) (simp_all add: after_exchanges_Nil after_exchanges_Cons exchange_simps)

lemma after_exchanges_count:
  "exchanges (after_exchanges net us w) = exchanges w + length us"
  by (induction us arbitrary: w) (simp_all add: after_exchanges_Nil after_exchanges_Cons exchange_simps)

lemma after_exchanges_clock:
  "clock (after_exchanges net us w) = clock w + (\<Sum>i<length us. snd (net (exchanges w + i)))"
proof (induction us arbitrary: w)
  case Nil
  show ?case by (simp add: after_exchanges_Nil)
next
  case (Cons u us)
  have "(\<Sum>i<Suc (length us). snd (net (exchanges w + i)))
          = snd (net (exchanges w)) + (\<Sum>i<length us. snd (net (Suc (exchanges w) + i)))"
    by (subst sum.lessThan_Suc_shift) simp
  then show ?case
    by (simp add: after_exchanges_Cons Cons.IH exchange_simps)
qed

subsection \<open>The adapter's retry loop\<close>

lemma adapter_send_world:
  "adapter_send net t u w = (res, w') \<Longrightarrow> \<exists>k. 0 < k \<and> w' = after_exchanges net (replicate k u) w"
proof (induction net t u w arbitrary: res w' rule: adapter_send.induct)
  case (1 net t u w)
  obtain rep w1 where ex: "exchange net u w = (rep, w1)" by (cases "exchange net u w")
  then have w1: "w1 = snd (exchange net u w)" by simp
  have base: "\<exists>k. 0 < k \<and> w1 = after_exchanges net (replicate k u) w"
    using w1 by (intro exI [of _ 1]) (simp add: after_exchanges_Cons after_exchanges_Nil)
  have rec: "\<exists>k. 0 < k \<and> w' = after_exchanges net (replicate k u) w"
    if "\<exists>k. 0 < k \<and> w' = after_exchanges net (replicate k u) w1"
  proof -
    from that obtain k where "0 < k" "w' = after_exchanges net (replicate k u) w1" by blast
    then show ?thesis using w1
      by (intro exI [of _ "Suc k"]) (simp add: after_exchanges_Cons)
  qed
  show ?case
  proof (cases rep)
    case (Responds response)
    show ?thesis
    proof (cases "is_retry t response \<and> \<not> t - 1 < 0")
      case True
      then have "adapter_send net (t - 1) u w1 = (res, w')"
        using "1.prems" ex Responds
        by (simp del: adapter_send.simps add: adapter_send.simps [of net t u w])
      from "1.IH"(1) [OF ex [symmetric] Responds _ _ this] True show ?thesis
        using rec by blast
    next
      case False
      then have "w' = w1"
        using "1.prems" ex Responds
        by (auto simp del: adapter_send.simps simp add: adapter_send.simps [of net t u w]
                 split: if_splits)
      then show ?thesis using base by simp
    qed
  next
    case (Redirects target)
    then have "w' = w1"
      using "1.prems" ex by (simp del: adapter_send.simps add: adapter_send.simps [of net t u w])
    then show ?thesis using base by simp
  next
    case NetworkError
    show ?thesis
    proof (cases "t - 1 < 0")
      case True
      then have "w' = w1"
        using "1.prems" ex NetworkError
        by (simp del: adapter_send.simps add: adapter_send.simps [of net t u w])
      then show ?thesis using base by simp
    next
      case False
      then have "adapter_send net (t - 1) u w1 = (res, w')"
        using "1.prems" ex NetworkError
        by (simp del: adapter_send.simps add: adapter_send.simps [of net t u w])
      from "1.IH"(2) [OF ex [symmetric] NetworkError False this] show ?thesis
        using rec by blast
    qed
  qed
qed


lemma adapter_send_not_retried:
  assumes "fst (net (exchanges w)) = Responds r" "\<not> is_retry t r"
  shows "adapter_send net t u w = (Responds r, after_exchanges net [u] w)"
proof -
  obtain w1 where ex: "exchange net u w = (Responds r, w1)"
    using assms(1) exchange_simps(1) [of net u w] by (cases "exchange net u w") simp
  then have "w1 = after_exchanges net [u] w"
    by (simp add: after_exchanges_Cons after_exchanges_Nil)
  then show ?thesis using ex assms(2) by simp
qed

subsection \<open>The session call\<close>

lemma follow_redirects_world:
  "follow_redirects net b h u w = (res, w') \<Longrightarrow> \<exists>us. w' = after_exchanges net (u # us) w"
proof (induction net b h u w arbitrary: res w' rule: follow_redirects.induct)
  case (1 net b h u w)
  obtain rep w1 where ad: "adapter_send net b u w = (rep, w1)" by (cases "adapter_send net b u w")
  from adapter_send_world [OF ad] obtain k where k: "0 < k" "w1 = after_exchanges net (replicate k u) w"
    by blast
  then obtain j where j: "k = Suc j" by (cases k) simp_all
  have base: "\<exists>us. w1 = after_exchanges net (u # us) w"
    using k j by (intro exI [of _ "replicate j u"]) simp
  show ?case
  proof (cases "\<exists>v. rep = Redirects (Some v) \<and> \<not> 30 \<le> h")
    case True
    then obtain v where v: "rep = Redirects (Some v)" "\<not> 30 \<le> h" by blast
    then have "follow_redirects net b (h + 1) v w1 = (res, w')"
      using "1.prems" ad
      by (simp del: follow_redirects.simps add: follow_redirects.simps [of net b h u w])
    from "1.IH" [OF ad [symmetric] v(1) v(2) refl this]
    obtain vs where "w' = after_exchanges net (v # vs) w1" by blast
    then have "w' = after_exchanges net (u # replicate j u @ v # vs) w"
      using k j after_exchanges_append [of net "u # replicate j u" "v # vs" w] by simp
    then show ?thesis by blast
  next
    case False
    then have "w' = w1"
      using "1.prems" ad
      by (cases rep)
         (auto simp del: follow_redirects.simps simp add: follow_redirects.simps [of net b h u w]
               split: if_splits option.splits)
    then show ?thesis using base by simp
  qed
qed

lemma follow_redirects_on_response:
  "adapter_send net b u w = (Responds r, w') \<Longrightarrow> follow_redirects net b h u w = (Inr r, w')"
  by simp

lemma session_get_world:
  assumes "session_get url_ok net b u w = (res, w')"
  shows "(url_ok u \<and> (\<exists>us. w' = after_exchanges net (u # us) w))
       \<or> (\<not> url_ok u \<and> res = Inl RequestException \<and> w' = w)"
  using assms follow_redirects_world [of net b 0 u w res w']
  by (auto simp: session_get_def split: if_splits)

lemma wait_if_needed_exchanges: "exchanges (wait_if_needed rq d w) = exchanges w"
  by (simp add: wait_if_needed_def sleep_def Let_def split: option.splits)

lemma get_on_response:
  assumes "get_domain host_ok u = Inr d"
    and "session_get url_ok net (max_retries rq) u (wait_if_needed rq d w) = (Inr r, w2)"
  shows "get host_ok url_ok net rq w u =
           Inr (Some r, rq\<lparr>last_request_time := (last_request_time rq)(d \<mapsto> clock w2)\<rparr>,
                w2\<lparr>trace := trace w2 @ [Stamped d (clock w2)]\<rparr>)"
  using assms by (simp add: get_def Let_def)

lemma get_on_exception:
  assumes "get_domain host_ok u = Inr d"
    and "session_get url_ok net (max_retries rq) u (wait_if_needed rq d w) = (Inl ex, w2)"
  shows "get host_ok url_ok net rq w u = Inr (None, rq, w2)"
  using assms by (simp add: get_def Let_def)

subsection \<open>Retry exhaustion\<close>



subsection \<open>Permanent statuses\<close>

text \<open>
  Claim C3, as stated, fails for status 403: the repository's retry list holds 403, so a
  403 is retried until the budget is used up.  With \<open>max_retries = 2\<close> and a remote
  side that always answers 403, one call makes three exchanges.
\<close>

theorem forbidden_status_is_retried:
  "(case get (\<lambda>_. True) (\<lambda>x. x = ''https://a.example/x'')
           (\<lambda>n. (Responds \<lparr>status_code = 403, has_retry_after = False, body = ''no''\<rparr>, 1))
           (new_safe_requester 1 2) \<lparr>clock = 0, exchanges = 0, trace = []\<rparr> ''https://a.example/x'' of
      Inl e \<Rightarrow> None
    | Inr (r, rq', w') \<Rightarrow> Some (map_option status_code r, exchanges w'))
   = Some (Some 403, 3)"
  by code_simp

text \<open>
  Claim C3, amended.  For a URL that \<open>urlparse\<close> and the HTTP library accept and a
  response whose status is a 4xx other than 429 and 403 (and other than a 413 that carries
  a \<open>Retry-After\<close> header), the requester makes no retry: after that single exchange
  the call returns the response, which carries the status.
\<close>

theorem permanent_status_not_retried:
  assumes "get_domain host_ok u = Inr d"
    and "url_ok u"
    and "fst (net (exchanges w)) = Responds r"
    and "400 \<le> status_code r" and "status_code r < 500"
    and "status_code r \<noteq> 429" and "status_code r \<noteq> 403"
    and "status_code r = 413 \<longrightarrow> \<not> has_retry_after r"
  shows "\<exists>rq' w'. get host_ok url_ok net rq w u = Inr (Some r, rq', w')
           \<and> exchanges w' = exchanges w + 1
           \<and> trace w' = trace (wait_if_needed rq d w) @ [Sent u, Stamped d (clock w')]"
proof -
  let ?w1 = "wait_if_needed rq d w"
  let ?w2 = "after_exchanges net [u] ?w1"
  have nr: "\<not> is_retry (max_retries rq) r"
    using assms(4-8) by (auto simp: is_retry_def status_forcelist_def)
  have first: "fst (net (exchanges ?w1)) = Responds r"
    using assms(3) by (simp add: wait_if_needed_exchanges)
  have sg: "session_get url_ok net (max_retries rq) u ?w1 = (Inr r, ?w2)"
    using follow_redirects_on_response
            [OF adapter_send_not_retried [of net ?w1 r "max_retries rq" u, OF first nr], of 0] assms(2)
    by (simp add: session_get_def)
  show ?thesis
    using get_on_response [OF assms(1) sg]
    by (simp add: after_exchanges_count after_exchanges_trace wait_if_needed_exchanges)
qed

theorem permanent_status_not_retried_witness:
  "\<exists>rq' w'.
      get (\<lambda>_. True) (\<lambda>x. x = ''https://a.example/x'')
        (\<lambda>n. (Responds \<lparr>status_code = 404, has_retry_after = False, body = ''gone''\<rparr>, 1))
        (new_safe_requester 1 2) \<lparr>clock = 0, exchanges = 0, trace = []\<rparr> ''https://a.example/x''
        = Inr (Some \<lparr>status_code = 404, has_retry_after = False, body = ''gone''\<rparr>, rq', w')
      \<and> exchanges w' = 1
      \<and> trace w' = [Sent ''https://a.example/x'', Stamped ''a.example'' (clock w')]"
proof -
  let ?r = "\<lparr>status_code = 404, has_retry_after = False, body = ''gone''\<rparr>"
  let ?net = "\<lambda>n::nat. (Responds ?r, 1::real)"
  let ?ok = "\<lambda>x. x = ''https://a.example/x''"
  let ?w = "\<lparr>clock = 0, exchanges = 0, trace = []\<rparr>"
  have h1: "get_domain (\<lambda>_. True) ''https://a.example/x'' = Inr ''a.example''" by code_simp
  have h0: "?ok ''https://a.example/x''" by simp
  have h2: "fst (?net (exchanges ?w)) = Responds ?r" by simp
  have h3: "400 \<le> status_code ?r" and h4: "status_code ?r < 500"
    and h5: "status_code ?r \<noteq> 429" and h6: "status_code ?r \<noteq> 403"
    and h7: "status_code ?r = 413 \<longrightarrow> \<not> has_retry_after ?r" by simp_all
  have nowait: "wait_if_needed (new_safe_requester 1 2) ''a.example'' ?w = ?w"
    by (simp add: wait_if_needed_def new_safe_requester_def)
  from permanent_status_not_retried [of "\<lambda>_. True" "''https://a.example/x''" "''a.example''" ?ok ?net ?w ?r
         "new_safe_requester 1 2", OF h1 h0 h2 h3 h4 h5 h6 h7]
  show ?thesis unfolding nowait by simp
qed

section \<open>Properties of pacing\<close>

subsection \<open>What a call of the blocking requester does\<close>

lemma wait_if_needed_pause:
  "\<exists>pause. (pause = [] \<or> (\<exists>s. 0 < s \<and> pause = [Slept s]))
      \<and> trace (wait_if_needed rq d w) = trace w @ pause"
  by (auto simp: wait_if_needed_def sleep_def Let_def split: option.splits)

lemma get_cases:
  assumes "get_domain host_ok u = Inr d"
  shows "\<exists>res sends.
           session_get url_ok net (max_retries rq) u (wait_if_needed rq d w)
             = (res, after_exchanges net sends (wait_if_needed rq d w))
         \<and> (case res of
              Inr r \<Rightarrow>
                sends \<noteq> [] \<and> hd sends = u
                \<and> get host_ok url_ok net rq w u =
                    Inr (Some r,
                         rq\<lparr>last_request_time := (last_request_time rq)
                               (d \<mapsto> clock (after_exchanges net sends (wait_if_needed rq d w)))\<rparr>,
                         (after_exchanges net sends (wait_if_needed rq d w))
                           \<lparr>trace := trace (after_exchanges net sends (wait_if_needed rq d w))
                                     @ [Stamped d (clock (after_exchanges net sends (wait_if_needed rq d w)))]\<rparr>)
            | Inl ex \<Rightarrow>
                get host_ok url_ok net rq w u =
                  Inr (None, rq, after_exchanges net sends (wait_if_needed rq d w)))"
proof -
  let ?w1 = "wait_if_needed rq d w"
  obtain res w2 where sg: "session_get url_ok net (max_retries rq) u ?w1 = (res, w2)"
    by (cases "session_get url_ok net (max_retries rq) u ?w1")
  from session_get_world [OF sg]
  consider us where "url_ok u" "w2 = after_exchanges net (u # us) ?w1"
    | "\<not> url_ok u" "res = Inl RequestException" "w2 = ?w1" by blast
  then show ?thesis
  proof cases
    case 1
    show ?thesis
    proof (cases res)
      case (Inl ex)
      then show ?thesis
        using sg 1 get_on_exception [OF assms, of url_ok net rq w ex w2]
        by (intro exI [of _ res] exI [of _ "u # us"]) simp
    next
      case (Inr r)
      then show ?thesis
        using sg 1 get_on_response [OF assms, of url_ok net rq w r w2]
        by (intro exI [of _ res] exI [of _ "u # us"]) simp
    qed
  next
    case 2
    then show ?thesis
      using sg get_on_exception [OF assms, of url_ok net rq w RequestException w2]
      by (intro exI [of _ res] exI [of _ "[]"]) (simp add: after_exchanges_Nil)
  qed
qed


subsection \<open>What a call of the cooperative pacer does\<close>

lemma get_strategy_keeps_default:
  "strategies mgr ''default'' = Some dflt \<Longrightarrow> \<exists>s. get_strategy mgr x = Inr s"
  by (simp add: get_strategy_def Let_def split: option.split)


lemma pm_wait_if_needed_result:
  assumes "get_strategy mgr (detect_platform u) = Inr strategy"
  shows "pm_wait_if_needed mgr draw u w =
           (let since = clock w - (case last_request_times mgr (detect_platform u) of
                                     None \<Rightarrow> 0 | Some x \<Rightarrow> x);
                required = get_request_interval strategy draw;
                pause = (if since < required then [Slept (required - since)] else []);
                t = (if since < required then clock w + (required - since) else clock w)
            in Inr (mgr\<lparr>last_request_times := (last_request_times mgr)(detect_platform u \<mapsto> t)\<rparr>,
                    w\<lparr>clock := t, trace := trace w @ pause @ [Stamped (detect_platform u) t]\<rparr>))"
  using assms by (simp add: pm_wait_if_needed_def Let_def sleep_def)


lemma aio_get_trace:
  "aio_get session u w = (resp, w') \<Longrightarrow>
     trace w' = trace w @ map Sent (requested (session u (exchanges w)))"
  by (auto simp: aio_get_def Let_def)

lemma get_strategy_Inr_default:
  "get_strategy mgr x = Inr s \<Longrightarrow> \<exists>dflt. strategies mgr ''default'' = Some dflt"
  by (auto simp: get_strategy_def Let_def split: option.splits)

subsection \<open>When the timestamp is written\<close>

text \<open>
  Claim C1, as stated, fails for the blocking requester: \<open>SafeRequester.get\<close> writes the
  timestamp after the session call has returned, not before the network call, and writes
  none when the session call raises.  One successful request to a fresh requester: the
  exchange is on the wire first, the timestamp is written afterwards, with the time at
  which the response arrived.  One request that ends in a network error after its retry:
  two exchanges are on the wire, the call returns \<open>None\<close> and no timestamp is written.
\<close>

theorem blocking_get_stamps_after_the_call:
  "(case get (\<lambda>_. True) (\<lambda>x. x = ''https://a.example/x'')
           (\<lambda>n. (Responds \<lparr>status_code = 200, has_retry_after = False, body = ''ok''\<rparr>, 2))
           (new_safe_requester 1 3) \<lparr>clock = 10, exchanges = 0, trace = []\<rparr> ''https://a.example/x'' of
      Inl e \<Rightarrow> None
    | Inr (r, rq', w') \<Rightarrow> Some (map_option status_code r, trace w', last_request_time rq' ''a.example''))
   = Some (Some 200, [Sent ''https://a.example/x'', Stamped ''a.example'' 12], Some 12)
   \<and> (case get (\<lambda>_. True) (\<lambda>x. x = ''https://a.example/x'') (\<lambda>n. (NetworkError, 2))
           (new_safe_requester 1 1) \<lparr>clock = 10, exchanges = 0, trace = []\<rparr> ''https://a.example/x'' of
      Inl e \<Rightarrow> None
    | Inr (r, rq', w') \<Rightarrow> Some (map_option status_code r, trace w', last_request_time rq' ''a.example''))
   = Some (None, [Sent ''https://a.example/x'', Sent ''https://a.example/x''], None)"
  by code_simp

text \<open>
  Claim C1, amended.  In the cooperative requester (\<open>AsyncSafeRequester.get\<close> with
  \<open>PlatformStrategyManager.wait_if_needed\<close>), every request issued with an open
  session, a free permit and a strategy for its platform writes the timestamp of that
  platform after the (possibly empty) pacing wait, with the time at which the wait ended,
  and before anything is put on the wire, whatever the outcome of the call (a response,
  \<open>None\<close>, or an exception raised while the headers are computed, in which case nothing
  is sent).  In the blocking requester (\<open>SafeRequester.get\<close>), a request for which the
  session returns a response of any status writes the timestamp of the URL's authority
  after the pacing wait and after the network exchanges, with the time at which the
  session call returned; a request for which the session raises writes no timestamp.
\<close>

theorem timestamp_written_around_the_call:
  "(get_strategy mgr (detect_platform u) = Inr strategy \<and> 0 < permits \<longrightarrow>
      (let since = clock w - (case last_request_times mgr (detect_platform u) of
                                None \<Rightarrow> 0 | Some x \<Rightarrow> x);
           required = get_request_interval strategy draw;
           pause = (if since < required then [Slept (required - since)] else []);
           t = (if since < required then clock w + (required - since) else clock w)
       in \<exists>outcome w' sends.
            async_get host_ok session True permits mgr draw w u
              = (outcome, mgr\<lparr>last_request_times := (last_request_times mgr)(detect_platform u \<mapsto> t)\<rparr>, w')
          \<and> outcome \<noteq> Blocks
          \<and> trace w' = trace w @ pause @ [Stamped (detect_platform u) t] @ map Sent sends
          \<and> ((\<exists>e. outcome = Throws e) \<longrightarrow> sends = [])))
   \<and> (get_domain host_ok u = Inr d \<longrightarrow>
      (\<exists>res rq' w'' pause sends.
          get host_ok url_ok net rq w u = Inr (res, rq', w'')
        \<and> (pause = [] \<or> (\<exists>s. 0 < s \<and> pause = [Slept s]))
        \<and> trace (wait_if_needed rq d w) = trace w @ pause
        \<and> ((\<exists>r. res = Some r) \<longrightarrow>
              sends \<noteq> [] \<and> hd sends = u
            \<and> trace w'' = trace w @ pause @ map Sent sends @ [Stamped d (clock w'')]
            \<and> clock w'' = clock (after_exchanges net sends (wait_if_needed rq d w))
            \<and> rq' = rq\<lparr>last_request_time := (last_request_time rq)(d \<mapsto> clock w'')\<rparr>)
        \<and> (res = None \<longrightarrow> rq' = rq \<and> trace w'' = trace w @ pause @ map Sent sends)))"
proof (intro conjI impI)
  assume a: "get_strategy mgr (detect_platform u) = Inr strategy \<and> 0 < permits"
  define since where "since = clock w - (case last_request_times mgr (detect_platform u) of
                                None \<Rightarrow> 0 | Some x \<Rightarrow> x)"
  define required where "required = get_request_interval strategy draw"
  define pause where "pause = (if since < required then [Slept (required - since)] else [])"
  define t where "t = (if since < required then clock w + (required - since) else clock w)"
  let ?mgr = "mgr\<lparr>last_request_times := (last_request_times mgr)(detect_platform u \<mapsto> t)\<rparr>"
  let ?w1 = "w\<lparr>clock := t, trace := trace w @ pause @ [Stamped (detect_platform u) t]\<rparr>"
  have pm: "pm_wait_if_needed mgr draw u w = Inr (?mgr, ?w1)"
    using pm_wait_if_needed_result [of mgr u strategy draw w] a
    by (simp add: Let_def since_def required_def pause_def t_def)
  from a get_strategy_Inr_default obtain dflt where "strategies mgr ''default'' = Some dflt" by blast
  then have "strategies ?mgr ''default'' = Some dflt" by simp
  from get_strategy_keeps_default [OF this, of u]
  obtain s where gs: "get_strategy ?mgr u = Inr s" by blast
  have "\<exists>outcome w' sends.
            async_get host_ok session True permits mgr draw w u = (outcome, ?mgr, w')
          \<and> outcome \<noteq> Blocks
          \<and> trace w' = trace w @ pause @ [Stamped (detect_platform u) t] @ map Sent sends
          \<and> ((\<exists>e. outcome = Throws e) \<longrightarrow> sends = [])"
  proof (cases "get_headers host_ok s u")
    case (Inl e)
    then have "async_get host_ok session True permits mgr draw w u = (Throws e, ?mgr, ?w1)"
      using a pm gs by (simp add: async_get_def)
    then show ?thesis
      by (intro exI [of _ "Throws e"] exI [of _ ?w1] exI [of _ "[]"]) simp
  next
    case (Inr headers)
    obtain resp w2 where ag: "aio_get session u ?w1 = (resp, w2)" by (cases "aio_get session u ?w1")
    have "async_get host_ok session True permits mgr draw w u = (Completes resp, ?mgr, w2)"
      using a pm gs Inr ag by (simp add: async_get_def)
    moreover have "trace w2 = trace w @ pause @ [Stamped (detect_platform u) t]
                      @ map Sent (requested (session u (exchanges w)))"
      using aio_get_trace [OF ag] by simp
    ultimately show ?thesis
      by (intro exI [of _ "Completes resp"] exI [of _ w2]
                exI [of _ "requested (session u (exchanges w))"]) simp
  qed
  then show "let since = clock w - (case last_request_times mgr (detect_platform u) of
                                None \<Rightarrow> 0 | Some x \<Rightarrow> x);
           required = get_request_interval strategy draw;
           pause = (if since < required then [Slept (required - since)] else []);
           t = (if since < required then clock w + (required - since) else clock w)
       in \<exists>outcome w' sends.
            async_get host_ok session True permits mgr draw w u
              = (outcome, mgr\<lparr>last_request_times := (last_request_times mgr)(detect_platform u \<mapsto> t)\<rparr>, w')
          \<and> outcome \<noteq> Blocks
          \<and> trace w' = trace w @ pause @ [Stamped (detect_platform u) t] @ map Sent sends
          \<and> ((\<exists>e. outcome = Throws e) \<longrightarrow> sends = [])"
    unfolding Let_def since_def required_def pause_def t_def .
next
  assume dom: "get_domain host_ok u = Inr d"
  let ?w1 = "wait_if_needed rq d w"
  from wait_if_needed_pause [of rq d w]
  obtain pause where pause: "pause = [] \<or> (\<exists>s. 0 < s \<and> pause = [Slept s])"
    and tw: "trace ?w1 = trace w @ pause" by blast
  from get_cases [OF dom, of url_ok net rq w]
  obtain res sends where
    sg: "session_get url_ok net (max_retries rq) u ?w1 = (res, after_exchanges net sends ?w1)"
    and cs: "case res of
              Inr r \<Rightarrow>
                sends \<noteq> [] \<and> hd sends = u
                \<and> get host_ok url_ok net rq w u =
                    Inr (Some r,
                         rq\<lparr>last_request_time := (last_request_time rq)
                               (d \<mapsto> clock (after_exchanges net sends ?w1))\<rparr>,
                         (after_exchanges net sends ?w1)
                           \<lparr>trace := trace (after_exchanges net sends ?w1)
                                     @ [Stamped d (clock (after_exchanges net sends ?w1))]\<rparr>)
            | Inl ex \<Rightarrow>
                get host_ok url_ok net rq w u = Inr (None, rq, after_exchanges net sends ?w1)"
    by (elim exE conjE) (rule that)
  let ?w2 = "after_exchanges net sends ?w1"
  have tr: "trace ?w2 = trace w @ pause @ map Sent sends"
    by (simp add: after_exchanges_trace tw)
  show "\<exists>res rq' w'' pause sends.
          get host_ok url_ok net rq w u = Inr (res, rq', w'')
        \<and> (pause = [] \<or> (\<exists>s. 0 < s \<and> pause = [Slept s]))
        \<and> trace (wait_if_needed rq d w) = trace w @ pause
        \<and> ((\<exists>r. res = Some r) \<longrightarrow>
              sends \<noteq> [] \<and> hd sends = u
            \<and> trace w'' = trace w @ pause @ map Sent sends @ [Stamped d (clock w'')]
            \<and> clock w'' = clock (after_exchanges net sends (wait_if_needed rq d w))
            \<and> rq' = rq\<lparr>last_request_time := (last_request_time rq)(d \<mapsto> clock w'')\<rparr>)
        \<and> (res = None \<longrightarrow> rq' = rq \<and> trace w'' = trace w @ pause @ map Sent sends)"
  proof (cases res)
    case (Inl ex)
    then have "get host_ok url_ok net rq w u = Inr (None, rq, ?w2)" using cs by simp
    then show ?thesis using pause tw tr
      by (intro exI [of _ None] exI [of _ rq] exI [of _ ?w2] exI [of _ pause] exI [of _ sends]) simp
  next
    case (Inr r)
    let ?rq = "rq\<lparr>last_request_time := (last_request_time rq)(d \<mapsto> clock ?w2)\<rparr>"
    let ?w3 = "?w2\<lparr>trace := trace ?w2 @ [Stamped d (clock ?w2)]\<rparr>"
    from Inr cs have g: "get host_ok url_ok net rq w u = Inr (Some r, ?rq, ?w3)"
      and s: "sends \<noteq> []" "hd sends = u" by simp_all
    show ?thesis using g s pause tw tr
      by (intro exI [of _ "Some r"] exI [of _ ?rq] exI [of _ ?w3] exI [of _ pause] exI [of _ sends])
         simp
  qed
qed

theorem timestamp_written_around_the_call_witness:
  "(\<exists>w' sends.
       async_get (\<lambda>_. True)
          (\<lambda>u n. \<lparr>requested = [u], took = 2,
                   answer = Some \<lparr>status_code = 200, has_retry_after = False, body = ''ok''\<rparr>\<rparr>)
          True 3 new_platform_manager 0 \<lparr>clock = 10, exchanges = 0, trace = []\<rparr> ''https://a.example/x''
         = (Completes (Some \<lparr>status_code = 200, has_retry_after = False, body = ''ok''\<rparr>),
            new_platform_manager\<lparr>last_request_times :=
               (last_request_times new_platform_manager)(''default'' \<mapsto> 10)\<rparr>,
            w')
     \<and> trace w' = Stamped ''default'' 10 # map Sent sends)
   \<and> (\<exists>rq' w'' sends.
       get (\<lambda>_. True) (\<lambda>x. x = ''https://a.example/x'')
          (\<lambda>n. (Responds \<lparr>status_code = 200, has_retry_after = False, body = ''ok''\<rparr>, 2))
          (new_safe_requester 1 3) \<lparr>clock = 10, exchanges = 0, trace = []\<rparr> ''https://a.example/x''
         = Inr (Some \<lparr>status_code = 200, has_retry_after = False, body = ''ok''\<rparr>, rq', w'')
     \<and> sends \<noteq> [] \<and> hd sends = ''https://a.example/x''
     \<and> trace w'' = map Sent sends @ [Stamped ''a.example'' (clock w'')]
     \<and> last_request_time rq' ''a.example'' = Some (clock w''))"
proof -
  let ?r = "\<lparr>status_code = 200, has_retry_after = False, body = ''ok''\<rparr>"
  let ?net = "\<lambda>n::nat. (Responds ?r, 2::real)"
  let ?session = "\<lambda>(u::string) (n::nat). \<lparr>requested = [u], took = 2, answer = Some ?r\<rparr>"
  let ?ok = "\<lambda>x. x = ''https://a.example/x''"
  let ?w = "\<lparr>clock = 10, exchanges = 0, trace = []\<rparr>"
  let ?u = "''https://a.example/x''"
  let ?rq = "new_safe_requester 1 3"
  let ?dflt = "\<lparr>ps_name = ''default'', min_interval = 3, max_interval = 5,
                ps_max_retries = 3, retry_backoff = 2,
                user_agents = default_user_agents, max_concurrent = 2,
                requires_mobile_ua = False, requires_referer = False\<rparr>"
  have plat: "detect_platform ?u = ''default''" by code_simp
  have h1: "get_strategy new_platform_manager (detect_platform ?u) = Inr ?dflt \<and> (0::nat) < 3"
    unfolding plat by (simp add: get_strategy_def new_platform_manager_def default_strategies_def)
  have dom: "get_domain (\<lambda>_. True) ?u = Inr ''a.example''" by code_simp
  have nowait: "wait_if_needed ?rq ''a.example'' ?w = ?w"
    by (simp add: wait_if_needed_def new_safe_requester_def)
  have ev1: "fst (async_get (\<lambda>_. True) ?session True 3 new_platform_manager 0 ?w ?u)
               = Completes (Some ?r)"
    by code_simp
  have ev2: "(case get (\<lambda>_. True) ?ok ?net ?rq ?w ?u of Inl e \<Rightarrow> None | Inr (r, rq', w') \<Rightarrow> r)
               = Some ?r"
    by code_simp
  note inst = timestamp_written_around_the_call
    [where mgr = new_platform_manager and u = ?u and strategy = ?dflt and permits = 3
       and w = ?w and draw = 0 and host_ok = "\<lambda>_. True" and session = ?session
       and d = "''a.example''" and url_ok = ?ok and net = ?net and rq = ?rq]
  from inst h1 have "\<exists>outcome w' sends.
            async_get (\<lambda>_. True) ?session True 3 new_platform_manager 0 ?w ?u
              = (outcome, new_platform_manager\<lparr>last_request_times :=
                   (last_request_times new_platform_manager)(''default'' \<mapsto> 10)\<rparr>, w')
          \<and> trace w' = Stamped ''default'' 10 # map Sent sends"
    unfolding plat by (simp add: Let_def get_request_interval_def new_platform_manager_def) blast
  then have a: "\<exists>w' sends.
            async_get (\<lambda>_. True) ?session True 3 new_platform_manager 0 ?w ?u
              = (Completes (Some ?r), new_platform_manager\<lparr>last_request_times :=
                   (last_request_times new_platform_manager)(''default'' \<mapsto> 10)\<rparr>, w')
          \<and> trace w' = Stamped ''default'' 10 # map Sent sends"
    using ev1 by auto
  from inst dom obtain res rq' w'' pause sends where
      g: "get (\<lambda>_. True) ?ok ?net ?rq ?w ?u = Inr (res, rq', w'')"
    and p: "trace (wait_if_needed ?rq ''a.example'' ?w) = trace ?w @ pause"
    and s: "(\<exists>r. res = Some r) \<longrightarrow>
              sends \<noteq> [] \<and> hd sends = ?u
            \<and> trace w'' = trace ?w @ pause @ map Sent sends @ [Stamped ''a.example'' (clock w'')]
            \<and> clock w'' = clock (after_exchanges ?net sends (wait_if_needed ?rq ''a.example'' ?w))
            \<and> rq' = ?rq\<lparr>last_request_time := (last_request_time ?rq)(''a.example'' \<mapsto> clock w'')\<rparr>"
    by blast
  from g ev2 have res: "res = Some ?r" by simp
  from p nowait have "pause = []" by simp
  with s res have b: "sends \<noteq> [] \<and> hd sends = ?u
            \<and> trace w'' = map Sent sends @ [Stamped ''a.example'' (clock w'')]
            \<and> last_request_time rq' ''a.example'' = Some (clock w'')" by simp
  from a b g res show ?thesis by blast
qed

subsection \<open>Which record a request reads and writes\<close>






section \<open>Properties of the result cache\<close>

subsection \<open>Dicts\<close>

lemma dict_get_empty: "dict_get [] k = None"
  by (simp add: dict_get_def)

lemma dict_get_del_same: "dict_get (dict_del d k) k = None"
  by (induction d) (auto simp: dict_get_def dict_del_def)

lemma dict_get_del_other: "k' \<noteq> k \<Longrightarrow> dict_get (dict_del d k) k' = dict_get d k'"
  by (induction d) (auto simp: dict_get_def dict_del_def)

lemma dict_del_absent: "dict_get d k = None \<Longrightarrow> dict_del d k = d"
  by (induction d) (auto simp: dict_get_def dict_del_def split: if_splits)

lemma dict_get_set_same: "dict_get (dict_set d k v) k = Some v"
  by (induction d) (auto simp: dict_get_def)

lemma dict_get_set_other: "k' \<noteq> k \<Longrightarrow> dict_get (dict_set d k v) k' = dict_get d k'"
  by (induction d) (auto simp: dict_get_def)

lemma dict_get_filter:
  "dict_get (filter (\<lambda>kv. P (fst kv)) d) k = (if P k then dict_get d k else None)"
  by (induction d) (auto simp: dict_get_def)

lemma dict_set_keys:
  "fst ` set (dict_set d k v) = insert k (fst ` set d)"
  by (induction d) force+

lemma dict_set_not_empty: "dict_set d k v \<noteq> []"
  by (cases d) (auto split: if_splits)

subsection \<open>Removing an entry\<close>

lemma remove_cache_entry_cases:
  "remove_cache_entry c h =
     (if removable c h
      then c\<lparr>files := dict_del (files c) h, entries := dict_del (entries c) h\<rparr>
      else c)"
  by (simp add: remove_cache_entry_def removable_def dict_del_absent split: option.split)

lemma removable_after_remove: "removable (remove_cache_entry c h) k = removable c k"
proof (cases "k = h")
  case True
  then show ?thesis
    by (simp add: remove_cache_entry_cases) (simp add: removable_def dict_get_del_same)
next
  case False
  then show ?thesis
    by (simp add: remove_cache_entry_cases) (simp add: removable_def dict_get_del_other)
qed

lemma remove_cache_entry_settings:
  "cache_expiry_seconds (remove_cache_entry c h) = cache_expiry_seconds c"
  "max_cache_size_mb (remove_cache_entry c h) = max_cache_size_mb c"
  "dir_writable (remove_cache_entry c h) = dir_writable c"
  by (simp_all add: remove_cache_entry_cases)

lemma filter_after_dict_del:
  "filter (\<lambda>kv. P (fst kv)) (dict_del xs h) = filter (\<lambda>kv. fst kv \<noteq> h \<and> P (fst kv)) xs"
  by (simp add: dict_del_def conj_commute)

subsection \<open>What the eviction loop leaves\<close>

text \<open>
  The loop goes through the first \<open>n\<close> sorted entries and removes, from the index and
  from the directory, those whose payload is absent or can be deleted; it fails only when
  there are fewer than \<open>n\<close> entries.
\<close>

lemma cleanup_loop_result:
  "cleanup_loop es n c =
     (if n \<le> length es then None else Some IndexError,
      c\<lparr>files := filter (\<lambda>kv. \<not> (fst kv \<in> fst ` set (take n es) \<and> removable c (fst kv))) (files c),
        entries := filter (\<lambda>kv. \<not> (fst kv \<in> fst ` set (take n es) \<and> removable c (fst kv))) (entries c)\<rparr>)"
proof (induction es n c rule: cleanup_loop.induct)
  case (1 sorted_entries c)
  show ?case by simp
next
  case (2 n c)
  show ?case by simp
next
  case (3 url_hash entry sorted_entries n c)
  let ?V = "fst ` set (take n sorted_entries)"
  show ?case
  proof (cases "removable c url_hash")
    case True
    have f: "filter (\<lambda>kv. \<not> (fst kv \<in> ?V \<and> removable c (fst kv))) (dict_del (files c) url_hash)
        = filter (\<lambda>kv. \<not> (fst kv \<in> insert url_hash ?V \<and> removable c (fst kv))) (files c)"
      using True by (auto simp: dict_del_def intro: filter_cong)
    have e: "filter (\<lambda>kv. \<not> (fst kv \<in> ?V \<and> removable c (fst kv))) (dict_del (entries c) url_hash)
        = filter (\<lambda>kv. \<not> (fst kv \<in> insert url_hash ?V \<and> removable c (fst kv))) (entries c)"
      using True by (auto simp: dict_del_def intro: filter_cong)
    show ?thesis
      using True 3 [unfolded removable_after_remove] f e
      by (simp add: remove_cache_entry_cases)
  next
    case False
    have f: "filter (\<lambda>kv. \<not> (fst kv \<in> ?V \<and> removable c (fst kv))) (files c)
        = filter (\<lambda>kv. \<not> (fst kv \<in> insert url_hash ?V \<and> removable c (fst kv))) (files c)"
      using False by (auto intro: filter_cong)
    have e: "filter (\<lambda>kv. \<not> (fst kv \<in> ?V \<and> removable c (fst kv))) (entries c)
        = filter (\<lambda>kv. \<not> (fst kv \<in> insert url_hash ?V \<and> removable c (fst kv))) (entries c)"
      using False by (auto intro: filter_cong)
    show ?thesis
      using False 3 [unfolded removable_after_remove] f e
      by (simp add: remove_cache_entry_cases)
  qed
qed

lemma cleanup_if_needed_expiry:
  assumes "cleanup_if_needed c = (r, c')"
  shows "cache_expiry_seconds c' = cache_expiry_seconds c"
  using assms
  by (auto simp: cleanup_if_needed_def cleanup_old_entries_def cleanup_loop_result
                 Let_def split: if_splits)

lemma cleanup_if_needed_keeps:
  assumes "cleanup_if_needed c = (r, c')"
  shows "(dict_get (entries c') k = None \<and> dict_get (files c') k = None)
       \<or> (dict_get (entries c') k = dict_get (entries c) k \<and> dict_get (files c') k = dict_get (files c) k)"
proof (cases "get_cache_size_mb c > max_cache_size_mb c")
  case False
  then show ?thesis using assms by (simp add: cleanup_if_needed_def)
next
  case True
  let ?es = "sort_key (\<lambda>kv. cached_at (snd kv)) (entries c)"
  let ?P = "\<lambda>k. \<not> (k \<in> fst ` set (take (max 1 (length ?es div 4)) ?es) \<and> removable c k)"
  have c': "c' = c\<lparr>files := filter (\<lambda>kv. ?P (fst kv)) (files c),
                    entries := filter (\<lambda>kv. ?P (fst kv)) (entries c)\<rparr>"
    using assms True
    by (simp add: cleanup_if_needed_def cleanup_old_entries_def cleanup_loop_result Let_def)
  show ?thesis
    using dict_get_filter [of ?P "entries c" k] dict_get_filter [of ?P "files c" k]
    unfolding c' by (cases "?P k") simp_all
qed

subsection \<open>What a successful store leaves\<close>

lemma save_result_entry:
  assumes "save_result md5_hex host_ok dump c t0 t u p = (True, c')"
  shows "\<exists>h e f. get_url_hash md5_hex host_ok u = Inr h
           \<and> cache_expiry_seconds c' = cache_expiry_seconds c
           \<and> e \<noteq> empty_entry \<and> cached_at e = t \<and> entry_hash e = h
           \<and> ((dict_get (entries c') h = None \<and> dict_get (files c') h = None)
              \<or> (dict_get (entries c') h = Some e \<and> dict_get (files c') h = Some f))"
proof (cases "get_url_hash md5_hex host_ok u")
  case (Inl err)
  then show ?thesis using assms by (simp add: save_result_def)
next
  case (Inr h)
  let ?d = "\<lparr>cd_url = u, cd_url_hash = h, cd_cached_at = t0, cd_result = p\<rparr>"
  from assms Inr obtain uo wo where op: "open_for_writing c h = Some (uo, wo)"
    by (cases "open_for_writing c h") (auto simp: save_result_def)
  from assms Inr op obtain n where dn: "dump ?d = Inr n"
    by (cases "dump ?d") (auto simp: save_result_def)
  let ?f = "\<lparr>cf_content = Json ?d, cf_size = n, cf_unlink_ok = uo, cf_write_ok = wo\<rparr>"
  let ?e = "\<lparr>ie_url = Some u, ie_url_hash = Some h, ie_cached_at = Some t, ie_file_size = Some n\<rparr>"
  let ?c1 = "c\<lparr>files := dict_set (files c) h ?f, entries := dict_set (entries c) h ?e\<rparr>"
  obtain r where cl: "cleanup_if_needed ?c1 = (r, c')"
    using assms Inr op dn
    by (cases "cleanup_if_needed ?c1") (auto simp: save_result_def Let_def split: option.splits)
  have e1: "dict_get (entries ?c1) h = Some ?e" "dict_get (files ?c1) h = Some ?f"
    by (simp_all add: dict_get_set_same)
  have e2: "cache_expiry_seconds ?c1 = cache_expiry_seconds c" by simp
  have "?e \<noteq> empty_entry" "cached_at ?e = t" "entry_hash ?e = h"
    by (simp_all add: empty_entry_def cached_at_def entry_hash_def)
  then show ?thesis
    using Inr cleanup_if_needed_keeps [OF cl, of h] cleanup_if_needed_expiry [OF cl] e1 e2
    by (intro exI [of _ h] exI [of _ ?e] exI [of _ ?f]) auto
qed

subsection \<open>Lookup of an entry that is no longer valid\<close>

text \<open>
  Claim C6, as stated, fails when the payload cannot be deleted: \<open>_remove_cache_entry\<close>
  deletes the index entry only after \<open>unlink\<close> has succeeded, and swallows the
  exception otherwise.  The payload path of the entry below is a directory (it cannot be
  read as JSON, written or unlinked) and the entry has expired: the lookup returns absent
  and leaves the cache as it was, with the entry still in the index.
\<close>

theorem undeletable_payload_keeps_the_entry:
  "get_cached_result example_md5 (\<lambda>_. True)
      \<lparr>cache_expiry_seconds = 1, max_cache_size_mb = 500,
       entries = [(''c565384b205789329e48af200d0aeb30'',
                   \<lparr>ie_url = Some ''https://a.example/x'',
                    ie_url_hash = Some ''c565384b205789329e48af200d0aeb30'',
                    ie_cached_at = Some 0, ie_file_size = Some 120\<rparr>)],
       files = [(''c565384b205789329e48af200d0aeb30'',
                 \<lparr>cf_content = Unreadable, cf_size = 4096,
                  cf_unlink_ok = False, cf_write_ok = False\<rparr>)],
       dir_writable = True\<rparr>
      (3 / 2) ''https://a.example/x''
   = Inr (None,
      \<lparr>cache_expiry_seconds = 1, max_cache_size_mb = 500,
       entries = [(''c565384b205789329e48af200d0aeb30'',
                   \<lparr>ie_url = Some ''https://a.example/x'',
                    ie_url_hash = Some ''c565384b205789329e48af200d0aeb30'',
                    ie_cached_at = Some 0, ie_file_size = Some 120\<rparr>)],
       files = [(''c565384b205789329e48af200d0aeb30'',
                 \<lparr>cf_content = Unreadable, cf_size = 4096,
                  cf_unlink_ok = False, cf_write_ok = False\<rparr>)],
       dir_writable = True\<rparr>)"
proof -
  have "get_url_hash example_md5 (\<lambda>_. True) ''https://a.example/x''
          = Inr ''c565384b205789329e48af200d0aeb30''"
    by code_simp
  then show ?thesis
    by (simp add: get_cached_result_def is_cache_valid_def remove_cache_entry_def dict_get_def
                  empty_entry_def cached_at_def)
qed

text \<open>
  Claim C6, amended.  A lookup that finds in the index an entry (not an empty dict) whose
  age exceeds the time to live, or whose payload file is missing or cannot be read,
  returns absent and calls \<open>_remove_cache_entry\<close> in the same operation: when the
  payload is absent or can be deleted, the entry leaves the index and the payload leaves
  the directory; when deleting the payload fails, the cache is left as it was.  No other
  entry or payload is touched.  In particular, with a time to live of one second, a lookup
  one and a half seconds after a successful store of the same URL returns absent, and the
  key is no longer in the index unless its payload could not be deleted.
\<close>

theorem lookup_purges_invalid_entry:
  "(get_url_hash md5_hex host_ok u = Inr h \<and> dict_get (entries c) h = Some e \<and> e \<noteq> empty_entry
      \<and> (cache_expiry_seconds c < current_time - cached_at e
          \<or> dict_get (files c) (entry_hash e) = None
          \<or> dict_get (files c) h = None
          \<or> (\<exists>f. dict_get (files c) h = Some f \<and> cf_content f = Unreadable))
    \<longrightarrow> get_cached_result md5_hex host_ok c current_time u = Inr (None, remove_cache_entry c h)
        \<and> (removable c h \<longrightarrow> dict_get (entries (remove_cache_entry c h)) h = None
                              \<and> dict_get (files (remove_cache_entry c h)) h = None)
        \<and> (\<not> removable c h \<longrightarrow> remove_cache_entry c h = c)
        \<and> (\<forall>k. k \<noteq> h \<longrightarrow> dict_get (entries (remove_cache_entry c h)) k = dict_get (entries c) k
                            \<and> dict_get (files (remove_cache_entry c h)) k = dict_get (files c) k))
   \<and> (cache_expiry_seconds c = 1 \<and> save_result md5_hex host_ok dump c written t u p = (True, stored)
    \<longrightarrow> (\<exists>h c2. get_url_hash md5_hex host_ok u = Inr h
           \<and> get_cached_result md5_hex host_ok stored (t + 3 / 2) u = Inr (None, c2)
           \<and> (removable stored h \<longrightarrow> dict_get (entries c2) h = None)
           \<and> (\<not> removable stored h \<longrightarrow> c2 = stored)))"
proof (intro conjI impI allI)
  assume a: "get_url_hash md5_hex host_ok u = Inr h \<and> dict_get (entries c) h = Some e \<and> e \<noteq> empty_entry
      \<and> (cache_expiry_seconds c < current_time - cached_at e
          \<or> dict_get (files c) (entry_hash e) = None
          \<or> dict_get (files c) h = None
          \<or> (\<exists>f. dict_get (files c) h = Some f \<and> cf_content f = Unreadable))"
  then show "get_cached_result md5_hex host_ok c current_time u = Inr (None, remove_cache_entry c h)"
    by (auto simp: get_cached_result_def is_cache_valid_def Let_def
             split: option.splits file_content.splits)
next
  assume "removable c h"
  then show "dict_get (entries (remove_cache_entry c h)) h = None"
    by (simp add: remove_cache_entry_cases dict_get_del_same)
next
  assume "removable c h"
  then show "dict_get (files (remove_cache_entry c h)) h = None"
    by (simp add: remove_cache_entry_cases dict_get_del_same)
next
  assume "\<not> removable c h"
  then show "remove_cache_entry c h = c" by (simp add: remove_cache_entry_cases)
next
  fix k assume "k \<noteq> h"
  then show "dict_get (entries (remove_cache_entry c h)) k = dict_get (entries c) k"
    by (simp add: remove_cache_entry_cases dict_get_del_other)
next
  fix k assume "k \<noteq> h"
  then show "dict_get (files (remove_cache_entry c h)) k = dict_get (files c) k"
    by (simp add: remove_cache_entry_cases dict_get_del_other)
next
  assume a: "cache_expiry_seconds c = 1 \<and> save_result md5_hex host_ok dump c written t u p = (True, stored)"
  from save_result_entry [of md5_hex host_ok dump c written t u p stored] a
  obtain h e f where h: "get_url_hash md5_hex host_ok u = Inr h"
    and ex: "cache_expiry_seconds stored = 1"
    and e: "e \<noteq> empty_entry" "cached_at e = t"
    and ix: "dict_get (entries stored) h = None \<or> dict_get (entries stored) h = Some e"
    by auto
  from ix show "\<exists>h c2. get_url_hash md5_hex host_ok u = Inr h
           \<and> get_cached_result md5_hex host_ok stored (t + 3 / 2) u = Inr (None, c2)
           \<and> (removable stored h \<longrightarrow> dict_get (entries c2) h = None)
           \<and> (\<not> removable stored h \<longrightarrow> c2 = stored)"
  proof
    assume n: "dict_get (entries stored) h = None"
    then have "get_cached_result md5_hex host_ok stored (t + 3 / 2) u = Inr (None, stored)"
      using h by (simp add: get_cached_result_def is_cache_valid_def)
    then show ?thesis using h n by blast
  next
    assume s: "dict_get (entries stored) h = Some e"
    then have "get_cached_result md5_hex host_ok stored (t + 3 / 2) u = Inr (None, remove_cache_entry stored h)"
      using h e ex by (simp add: get_cached_result_def is_cache_valid_def)
    moreover have "removable stored h \<longrightarrow> dict_get (entries (remove_cache_entry stored h)) h = None"
      by (simp add: remove_cache_entry_cases dict_get_del_same)
    moreover have "\<not> removable stored h \<longrightarrow> remove_cache_entry stored h = stored"
      by (simp add: remove_cache_entry_cases)
    ultimately show ?thesis using h by blast
  qed
qed

theorem lookup_purges_invalid_entry_witness:
  "get_cached_result example_md5 (\<lambda>_. True)
      \<lparr>cache_expiry_seconds = 1, max_cache_size_mb = 500,
       entries = [(''c565384b205789329e48af200d0aeb30'',
                   \<lparr>ie_url = Some ''https://a.example/x'',
                    ie_url_hash = Some ''c565384b205789329e48af200d0aeb30'',
                    ie_cached_at = Some 0, ie_file_size = Some 120\<rparr>)],
       files = [(''c565384b205789329e48af200d0aeb30'',
                 \<lparr>cf_content = Json \<lparr>cd_url = ''https://a.example/x'',
                                       cd_url_hash = ''c565384b205789329e48af200d0aeb30'',
                                       cd_cached_at = 0, cd_result = ''P''\<rparr>,
                  cf_size = 120, cf_unlink_ok = True, cf_write_ok = True\<rparr>)],
       dir_writable = True\<rparr>
      (3 / 2) ''https://a.example/x''
    = Inr (None, \<lparr>cache_expiry_seconds = 1, max_cache_size_mb = 500, entries = [], files = [],
                  dir_writable = True\<rparr>)
   \<and> (\<exists>c1 c2.
         save_result example_md5 (\<lambda>_. True) (\<lambda>d. Inr 120)
           \<lparr>cache_expiry_seconds = 1, max_cache_size_mb = 500,
            entries = [(''c565384b205789329e48af200d0aeb30'',
                        \<lparr>ie_url = Some ''https://a.example/x'',
                         ie_url_hash = Some ''c565384b205789329e48af200d0aeb30'',
                         ie_cached_at = Some 0, ie_file_size = Some 120\<rparr>)],
            files = [(''c565384b205789329e48af200d0aeb30'',
                      \<lparr>cf_content = Json \<lparr>cd_url = ''https://a.example/x'',
                                            cd_url_hash = ''c565384b205789329e48af200d0aeb30'',
                                            cd_cached_at = 0, cd_result = ''P''\<rparr>,
                       cf_size = 120, cf_unlink_ok = True, cf_write_ok = True\<rparr>)],
            dir_writable = True\<rparr>
           10 10 ''https://a.example/x'' ''Q'' = (True, c1)
       \<and> dict_get (entries c1) ''c565384b205789329e48af200d0aeb30'' \<noteq> None
       \<and> get_cached_result example_md5 (\<lambda>_. True) c1 (10 + 3 / 2) ''https://a.example/x'' = Inr (None, c2)
       \<and> dict_get (entries c2) ''c565384b205789329e48af200d0aeb30'' = None)"
proof -
  let ?u = "''https://a.example/x''"
  let ?h = "''c565384b205789329e48af200d0aeb30''"
  let ?e = "\<lparr>ie_url = Some ?u, ie_url_hash = Some ?h, ie_cached_at = Some (0 :: real),
             ie_file_size = Some (120 :: nat)\<rparr>"
  let ?f = "\<lparr>cf_content = Json \<lparr>cd_url = ?u, cd_url_hash = ?h, cd_cached_at = 0, cd_result = ''P''\<rparr>,
             cf_size = 120, cf_unlink_ok = True, cf_write_ok = True\<rparr>"
  let ?c = "\<lparr>cache_expiry_seconds = 1, max_cache_size_mb = 500, entries = [(?h, ?e)],
             files = [(?h, ?f)], dir_writable = True\<rparr>"
  let ?cs = "\<lparr>cache_expiry_seconds = 1, max_cache_size_mb = 500,
              entries = [(?h, \<lparr>ie_url = Some ?u, ie_url_hash = Some ?h, ie_cached_at = Some (10 :: real),
                               ie_file_size = Some (120 :: nat)\<rparr>)],
              files = [(?h, \<lparr>cf_content = Json \<lparr>cd_url = ?u, cd_url_hash = ?h, cd_cached_at = 10,
                                                  cd_result = ''Q''\<rparr>,
                             cf_size = 120, cf_unlink_ok = True, cf_write_ok = True\<rparr>)],
              dir_writable = True\<rparr>"
  have key: "get_url_hash example_md5 (\<lambda>_. True) ?u = Inr ?h" by code_simp
  have ent: "dict_get (entries ?c) ?h = Some ?e" by (simp add: dict_get_def)
  have ne: "?e \<noteq> empty_entry" by (simp add: empty_entry_def)
  have old: "cache_expiry_seconds ?c < 3 / 2 - cached_at ?e" by (simp add: cached_at_def)
  have ttl: "cache_expiry_seconds ?c = 1" by simp
  have st: "save_result example_md5 (\<lambda>_. True) (\<lambda>d. Inr 120) ?c 10 10 ?u ''Q'' = (True, ?cs)"
    by (simp add: save_result_def key open_for_writing_def dict_get_def cleanup_if_needed_def
                  get_cache_size_mb_def total_size_def Let_def)
  have rm: "remove_cache_entry ?c ?h
              = \<lparr>cache_expiry_seconds = 1, max_cache_size_mb = 500, entries = [], files = [],
                 dir_writable = True\<rparr>"
    by (simp add: remove_cache_entry_def dict_del_def dict_get_def)
  have rs: "removable ?cs ?h" by (simp add: removable_def dict_get_def)
  have ix: "dict_get (entries ?cs) ?h \<noteq> None" by (simp add: dict_get_def)
  note inst = lookup_purges_invalid_entry
                [where ?md5_hex = example_md5 and ?host_ok = "\<lambda>_. True" and ?u = ?u and ?h = ?h
                   and ?c = ?c and ?e = ?e and ?current_time = "3 / 2"
                   and ?dump = "\<lambda>d. Inr 120" and ?written = 10 and ?t = 10 and ?p = "''Q''"
                   and ?stored = ?cs]
  from inst key ent ne old ttl st
  have p1: "get_cached_result example_md5 (\<lambda>_. True) ?c (3 / 2) ?u = Inr (None, remove_cache_entry ?c ?h)"
    and p2: "\<exists>h c2. get_url_hash example_md5 (\<lambda>_. True) ?u = Inr h
               \<and> get_cached_result example_md5 (\<lambda>_. True) ?cs (10 + 3 / 2) ?u = Inr (None, c2)
               \<and> (removable ?cs h \<longrightarrow> dict_get (entries c2) h = None)
               \<and> (\<not> removable ?cs h \<longrightarrow> c2 = ?cs)"
    by blast+
  from p2 key rs obtain c2 where
    "get_cached_result example_md5 (\<lambda>_. True) ?cs (10 + 3 / 2) ?u = Inr (None, c2)"
    "dict_get (entries c2) ?h = None" by auto
  with st ix have "\<exists>c1 c2.
         save_result example_md5 (\<lambda>_. True) (\<lambda>d. Inr 120) ?c 10 10 ?u ''Q'' = (True, c1)
       \<and> dict_get (entries c1) ?h \<noteq> None
       \<and> get_cached_result example_md5 (\<lambda>_. True) c1 (10 + 3 / 2) ?u = Inr (None, c2)
       \<and> dict_get (entries c2) ?h = None" by blast
  with p1 rm show ?thesis by simp
qed

section \<open>Properties of the cache keys\<close>

subsection \<open>No component but the fragment holds a \<open>#\<close>\<close>


lemma set_after_first: "set (after_first c s) \<subseteq> set s"
  by (auto simp: after_first_def dest: in_set_dropD set_dropWhileD)




lemma split_scheme_rest: "split_scheme u = (sch, rest) \<Longrightarrow> set rest \<subseteq> set u"
  using set_after_first [of "CHR '':''" u]
  by (auto simp: split_scheme_def Let_def split: if_splits)






subsection \<open>An encoded query holds no \<open>#\<close>\<close>








subsection \<open>Store, then lookup under the same key\<close>



subsection \<open>Which URLs share a key\<close>




end
